theory Spec2Isabelle
  imports Main "HOL-Library.Multiset"
begin

section \<open>Results of calls that may throw\<close>

text \<open>
  A call of the source either returns a value or throws (an \<^verbatim>\<open>async\<close> function
  rejects its promise). \<open>Threw\<close> is the thrown exception, \<open>Returned v\<close> the value.
\<close>

datatype 'a outcome = Threw | Returned 'a

text \<open>
  A field of a JSON object that TypeScript declares \<^verbatim>\<open>f?: T | null\<close> has three
  states: the field is missing (\<^verbatim>\<open>undefined\<close>), it is \<^verbatim>\<open>null\<close>, or it holds a value.
\<close>

datatype 'a nullable = Undefined | Null | Val 'a

text \<open>JavaScript truthiness of a \<^verbatim>\<open>string | null | undefined\<close>: only a non-empty string.\<close>

fun truthy_str :: "string nullable \<Rightarrow> bool" where
  "truthy_str (Val s) = (s \<noteq> [])"
| "truthy_str Null = False"
| "truthy_str Undefined = False"

section \<open>The data model of \<^verbatim>\<open>types.ts\<close>\<close>

text \<open>
  \<^verbatim>\<open>UserStory\<close>: the field \<^verbatim>\<open>id\<close> is \<open>id'\<close> here (\<open>id\<close> is HOL's identity);
  \<^verbatim>\<open>verified?: boolean\<close> is \<open>None\<close> when the field is missing; \<^verbatim>\<open>notes?: string\<close>
  likewise (the field is \<open>notes'\<close> here). Priorities are taken as integers.
\<close>

record UserStory =
  id' :: string
  title :: string
  description :: string
  acceptanceCriteria :: "string list"
  priority :: int
  passes :: bool
  notes' :: "string option"
  claimed_by :: "string nullable"
  claimed_at :: "string nullable"
  verified :: "bool option"
  verified_by :: "string nullable"
  verified_at :: "string nullable"
  verification_notes :: "string nullable"

record PRD =
  project :: string
  branchName :: "string option"
  prd_description :: "string option"
  userStories :: "UserStory list"

record ExecResult =
  success :: bool
  stdout :: string
  stderr :: string
  code :: int

section \<open>Story status and story diff of \<^verbatim>\<open>tools/changes.ts\<close>\<close>

record StoryTransition =
  t_id :: string
  t_title :: string
  t_from :: string
  t_to :: string

text \<open>\<^verbatim>\<open>storyStatus\<close> of changes.ts, lines 33-37.\<close>

definition storyStatus :: "UserStory \<Rightarrow> string" where
  "storyStatus s =
     (if passes s then ''done''
      else if truthy_str (claimed_by s)
        then ''claimed by '' @ (case claimed_by s of Val x \<Rightarrow> x | _ \<Rightarrow> [])
      else ''available'')"

text \<open>
  \<^verbatim>\<open>oldMap\<close> of \<^verbatim>\<open>diffStories\<close>: the stories of the old ledger are stored under
  their identifiers in list order, so a later story replaces an earlier one of the same
  identifier.
\<close>

definition oldMap_of :: "PRD option \<Rightarrow> (string \<rightharpoonup> UserStory)" where
  "oldMap_of oldPrd =
     (case oldPrd of
        None \<Rightarrow> Map.empty
      | Some p \<Rightarrow> foldl (\<lambda>m s. m(id' s \<mapsto> s)) Map.empty (userStories p))"

text \<open>The loop over the stories of the new ledger, lines 53-66.\<close>

fun diff_loop :: "(string \<rightharpoonup> UserStory) \<Rightarrow> UserStory list \<Rightarrow> StoryTransition list" where
  "diff_loop oldMap [] = []"
| "diff_loop oldMap (s # ss) =
     (let prevStatus = (case oldMap (id' s) of Some prev \<Rightarrow> storyStatus prev | None \<Rightarrow> ''new'');
          currStatus = storyStatus s
      in if prevStatus \<noteq> currStatus
         then \<lparr>t_id = id' s, t_title = title s, t_from = prevStatus, t_to = currStatus\<rparr>
              # diff_loop oldMap ss
         else diff_loop oldMap ss)"

definition diffStories :: "PRD option \<Rightarrow> PRD option \<Rightarrow> StoryTransition list" where
  "diffStories oldPrd newPrd =
     (case newPrd of
        None \<Rightarrow> []
      | Some np \<Rightarrow> diff_loop (oldMap_of oldPrd) (userStories np))"

text \<open>The identifiers a ledger that may be absent holds.\<close>

definition ids_of :: "PRD option \<Rightarrow> string set" where
  "ids_of p = (case p of None \<Rightarrow> {} | Some q \<Rightarrow> id' ` set (userStories q))"

section \<open>Strings and numbers of the JavaScript runtime\<close>

text \<open>
  Strings are lists of characters, taken as ASCII. A JavaScript number that is used as an
  integer is \<open>Some i\<close>; \<open>None\<close> is \<^verbatim>\<open>NaN\<close>, which \<^verbatim>\<open>parseInt\<close> returns on a string
  without digits. Arithmetic on \<^verbatim>\<open>NaN\<close> is \<^verbatim>\<open>NaN\<close>, every comparison with it is false.
  Rounding of integers beyond \<open>2^53\<close> is not modelled.
\<close>

type_synonym jsnum = "int option"

definition num_mul :: "jsnum \<Rightarrow> jsnum \<Rightarrow> jsnum" where
  "num_mul a b = (case (a, b) of (Some x, Some y) \<Rightarrow> Some (x * y) | _ \<Rightarrow> None)"

definition num_sub :: "jsnum \<Rightarrow> jsnum \<Rightarrow> jsnum" where
  "num_sub a b = (case (a, b) of (Some x, Some y) \<Rightarrow> Some (x - y) | _ \<Rightarrow> None)"

definition num_lt :: "jsnum \<Rightarrow> jsnum \<Rightarrow> bool" where
  "num_lt a b = (case (a, b) of (Some x, Some y) \<Rightarrow> x < y | _ \<Rightarrow> False)"

definition num_gt :: "jsnum \<Rightarrow> jsnum \<Rightarrow> bool" where
  "num_gt a b = num_lt b a"

text \<open>White space (\<^verbatim>\<open>\s\<close> and \<^verbatim>\<open>trim\<close>): space, tab, line feed, VT, FF, CR.\<close>

definition is_ws :: "char \<Rightarrow> bool" where
  "is_ws c = (c = CHR '' '' \<or> c = CHR 0x09 \<or> c = CHR 0x0A \<or> c = CHR 0x0B
              \<or> c = CHR 0x0C \<or> c = CHR 0x0D)"

text \<open>A decimal digit (\<^verbatim>\<open>\d\<close>) and its value.\<close>

definition is_digit :: "char \<Rightarrow> bool" where
  "is_digit c = (c \<in> set ''0123456789'')"

definition digit_val :: "char \<Rightarrow> nat" where
  "digit_val c = (of_char c :: nat) - 48"

definition dec_val :: "string \<Rightarrow> nat" where
  "dec_val ds = foldl (\<lambda>a c. 10 * a + digit_val c) 0 ds"

definition trim :: "string \<Rightarrow> string" where
  "trim s = rev (dropWhile is_ws (rev (dropWhile is_ws s)))"

text \<open>\<^verbatim>\<open>s.split(d)\<close> for a one-character separator: the empty string gives one empty piece.\<close>

fun split_on :: "char \<Rightarrow> string \<Rightarrow> string list" where
  "split_on d [] = [[]]"
| "split_on d (c # cs) =
     (if c = d then [] # split_on d cs
      else (case split_on d cs of
              l # ls \<Rightarrow> (c # l) # ls
            | [] \<Rightarrow> [[c]]))"

text \<open>\<^verbatim>\<open>pieces.join(d)\<close>.\<close>

fun join_with :: "char \<Rightarrow> string list \<Rightarrow> string" where
  "join_with d [] = []"
| "join_with d [x] = x"
| "join_with d (x # y # ys) = x @ d # join_with d (y # ys)"

text \<open>\<^verbatim>\<open>xs[0]\<close> of the result of a split, which is never empty.\<close>

definition first_piece :: "string list \<Rightarrow> string" where
  "first_piece xs = (case xs of [] \<Rightarrow> [] | x # _ \<Rightarrow> x)"

text \<open>\<^verbatim>\<open>xs[i]\<close> where the source destructures an array: \<open>None\<close> is \<^verbatim>\<open>undefined\<close>.\<close>

definition nth_opt :: "'a list \<Rightarrow> nat \<Rightarrow> 'a option" where
  "nth_opt xs i = (if i < length xs then Some (xs ! i) else None)"

definition endsWith :: "string \<Rightarrow> string \<Rightarrow> bool" where
  "endsWith suffix s = (length suffix \<le> length s \<and> drop (length s - length suffix) s = suffix)"

definition startsWith :: "string \<Rightarrow> string \<Rightarrow> bool" where
  "startsWith pre s = (take (length pre) s = pre)"

text \<open>\<^verbatim>\<open>s.indexOf(c)\<close>: \<open>-1\<close> when \<open>c\<close> does not occur.\<close>

definition indexOf :: "char \<Rightarrow> string \<Rightarrow> int" where
  "indexOf c s = (if c \<in> set s then int (length (takeWhile (\<lambda>x. x \<noteq> c) s)) else - 1)"

text \<open>
  \<^verbatim>\<open>s.substring(a, b)\<close> and \<^verbatim>\<open>s.substring(a)\<close>: indices are clamped to
  \<open>0 .. length s\<close> and swapped when the first is the larger.
\<close>

definition substring :: "string \<Rightarrow> int \<Rightarrow> int \<Rightarrow> string" where
  "substring s a b =
     (let n = int (length s);
          a' = min n (max 0 a);
          b' = min n (max 0 b);
          lo = min a' b';
          hi = max a' b'
      in take (nat (hi - lo)) (drop (nat lo) s))"

definition substring_from :: "string \<Rightarrow> int \<Rightarrow> string" where
  "substring_from s a = drop (nat (max 0 a)) s"

text \<open>
  \<^verbatim>\<open>parseInt(s, 10)\<close>: leading white space, an optional sign, then the longest run of
  digits; \<^verbatim>\<open>NaN\<close> when that run is empty.
\<close>

definition parseInt10 :: "string \<Rightarrow> jsnum" where
  "parseInt10 s =
     (let t = dropWhile is_ws s;
          neg = (case t of c # _ \<Rightarrow> c = CHR ''-'' | [] \<Rightarrow> False);
          u = (case t of c # r \<Rightarrow> if c = CHR ''-'' \<or> c = CHR ''+'' then r else t | [] \<Rightarrow> []);
          ds = takeWhile is_digit u
      in if ds = [] then None
         else Some ((if neg then - 1 else 1) * int (dec_val ds)))"

section \<open>The worker freshness classifier of \<^verbatim>\<open>tools/changes.ts\<close>\<close>

text \<open>
  The regular expression \<^verbatim>\<open>/(\d+)\s*(second|minute|hour|day)/\<close>, lines 205-207.
  \<open>unit_at\<close> is the alternation at the head of a string. \<open>match_here\<close> is a match that
  starts at the head: the longest run of digits, then the longest run of white space, then
  a unit. Backtracking finds nothing more at the same start, since a shorter run of digits
  or of white space leaves a digit or a white space where the unit must begin.
  \<open>uptime_match\<close> is \<^verbatim>\<open>running_for.match(re)\<close>: the leftmost start that matches, with
  the two groups.
\<close>

definition unit_at :: "string \<Rightarrow> string option" where
  "unit_at s =
     (if startsWith ''second'' s then Some ''second''
      else if startsWith ''minute'' s then Some ''minute''
      else if startsWith ''hour'' s then Some ''hour''
      else if startsWith ''day'' s then Some ''day''
      else None)"

definition match_here :: "string \<Rightarrow> (string \<times> string) option" where
  "match_here s =
     (let ds = takeWhile is_digit s;
          r = dropWhile is_ws (dropWhile is_digit s)
      in if ds = [] then None
         else (case unit_at r of None \<Rightarrow> None | Some u \<Rightarrow> Some (ds, u)))"

fun uptime_match :: "string \<Rightarrow> (string \<times> string) option" where
  "uptime_match [] = None"
| "uptime_match (c # cs) =
     (case match_here (c # cs) of
        Some m \<Rightarrow> Some m
      | None \<Rightarrow> uptime_match cs)"

text \<open>The factor of lines 213-219.\<close>

definition unit_ms :: "string \<Rightarrow> int" where
  "unit_ms unit =
     (if unit = ''second'' then 1000
      else if unit = ''minute'' then 60000
      else if unit = ''hour'' then 3600000
      else 86400000)"

text \<open>
  The callback of the filter, lines 203-222, on a \<^verbatim>\<open>running_for\<close> that is a string.
  \<open>now\<close> is \<^verbatim>\<open>Date.now()\<close>, \<open>sinceTimestamp\<close> the reference instant.
\<close>

definition likelyNew_test :: "int \<Rightarrow> jsnum \<Rightarrow> string \<Rightarrow> bool" where
  "likelyNew_test now sinceTimestamp running_for =
     (case uptime_match running_for of
        None \<Rightarrow> False
      | Some (d, unit) \<Rightarrow>
          (let val = parseInt10 d;
               uptimeMs = num_mul val (Some (unit_ms unit));
               sinceDuration = num_sub (Some now) sinceTimestamp
           in num_lt uptimeMs sinceDuration))"

text \<open>
  \<^verbatim>\<open>ContainerInfo\<close>. A line of the process listing is split at tabs and destructured,
  lines 195-198, so \<^verbatim>\<open>status\<close> and \<^verbatim>\<open>running_for\<close> are \<^verbatim>\<open>undefined\<close> (\<open>None\<close>) on a
  line with fewer fields.
\<close>

record ContainerInfo =
  name :: string
  status :: "string option"
  running_for :: "string option"

definition parse_container :: "string \<Rightarrow> ContainerInfo" where
  "parse_container line =
     (let fields = split_on (CHR 0x09) line
      in \<lparr>name = first_piece fields, status = nth_opt fields 1, running_for = nth_opt fields 2\<rparr>)"

text \<open>
  The filter over the containers: \<^verbatim>\<open>c.running_for.match\<close> throws a TypeError on an
  \<^verbatim>\<open>undefined\<close> \<^verbatim>\<open>running_for\<close>.
\<close>

fun likelyNew_filter :: "int \<Rightarrow> jsnum \<Rightarrow> ContainerInfo list \<Rightarrow> ContainerInfo list outcome" where
  "likelyNew_filter now st [] = Returned []"
| "likelyNew_filter now st (c # cs) =
     (case running_for c of
        None \<Rightarrow> Threw
      | Some r \<Rightarrow>
          (case likelyNew_filter now st cs of
             Threw \<Rightarrow> Threw
           | Returned xs \<Rightarrow> Returned (if likelyNew_test now st r then c # xs else xs)))"

section \<open>The runtime the tools call\<close>

text \<open>
  What the tools reach outside themselves, as one record of functions, fixed for the
  length of one call of a tool:
  \<^item> \<open>exec\<close> is \<^verbatim>\<open>exec(cmd, {cwd})\<close> of \<^verbatim>\<open>exec.ts\<close>: the argument vector and the working
    directory give the process's result, or the call throws (\<^verbatim>\<open>Deno.Command\<close> throws when
    the process cannot be started; \<^verbatim>\<open>exec\<close> has no handler of its own);
  \<^item> \<open>stat\<close> is \<^verbatim>\<open>Deno.stat\<close>, \<open>readTextFile\<close> is \<^verbatim>\<open>Deno.readTextFile\<close>,
    \<open>readDir\<close> is \<^verbatim>\<open>Deno.readDir\<close>, read to its end;
  \<^item> \<open>JSON_parse\<close> is \<^verbatim>\<open>JSON.parse\<close> on a ledger document: it throws on text that is
    not JSON; on the document \<^verbatim>\<open>null\<close> it returns \<^verbatim>\<open>null\<close> (\<open>Returned None\<close>); any other
    value it returns is passed on as a \<^verbatim>\<open>PRD\<close> without any check of its shape;
  \<^item> \<open>now\<close> is \<^verbatim>\<open>Date.now()\<close>.
\<close>

record FileInfo =
  stat_mtime :: "int option"

record DirEntry =
  entry_name :: string
  isFile :: bool

record runtime =
  exec :: "string list \<Rightarrow> string option \<Rightarrow> ExecResult outcome"
  stat :: "string \<Rightarrow> FileInfo outcome"
  readTextFile :: "string \<Rightarrow> string outcome"
  readDir :: "string \<Rightarrow> DirEntry list outcome"
  JSON_parse :: "string \<Rightarrow> PRD option outcome"
  now :: int

section \<open>Reference resolution of \<^verbatim>\<open>exec.ts\<close>\<close>

text \<open>\<^verbatim>\<open>resolveLatestPrdRef\<close>, lines 62-71 of exec.ts. No handler: a throw of \<open>exec\<close> leaves it.\<close>

definition resolveLatestPrdRef :: "runtime \<Rightarrow> string \<Rightarrow> string outcome" where
  "resolveLatestPrdRef rt bareRepo =
     (case exec rt [''git'', ''log'', ''--all'', ''-1'', ''--format=%H'', ''--'', ''prd.json'']
             (Some bareRepo) of
        Threw \<Rightarrow> Threw
      | Returned result \<Rightarrow>
          if success result \<and> trim (stdout result) \<noteq> []
          then Returned (trim (stdout result))
          else Returned ''HEAD'')"

text \<open>\<^verbatim>\<open>resolveLatestCommit\<close>, lines 76-85 of exec.ts.\<close>

definition resolveLatestCommit :: "runtime \<Rightarrow> string \<Rightarrow> string outcome" where
  "resolveLatestCommit rt bareRepo =
     (case exec rt [''git'', ''log'', ''--all'', ''-1'', ''--format=%H''] (Some bareRepo) of
        Threw \<Rightarrow> Threw
      | Returned result \<Rightarrow>
          if success result \<and> trim (stdout result) \<noteq> []
          then Returned (trim (stdout result))
          else Returned ''unknown'')"

section \<open>The ledger readers\<close>

text \<open>
  \<^verbatim>\<open>readPrdAtCommit\<close> of changes.ts, lines 71-87: one attempt, inside \<^verbatim>\<open>try\<close>;
  \<open>None\<close> is \<^verbatim>\<open>null\<close>. What \<^verbatim>\<open>JSON.parse\<close> returns is returned as it is.
\<close>

definition readPrdAtCommit :: "runtime \<Rightarrow> string \<Rightarrow> string \<Rightarrow> PRD option" where
  "readPrdAtCommit rt bareRepo commit =
     (case exec rt [''git'', ''show'', commit @ '':prd.json''] (Some bareRepo) of
        Threw \<Rightarrow> None
      | Returned result \<Rightarrow>
          if success result
          then (case JSON_parse rt (stdout result) of Threw \<Rightarrow> None | Returned v \<Rightarrow> v)
          else None)"

text \<open>The second attempt of \<^verbatim>\<open>readPrd\<close>, lines 108-114 of prd-read.ts.\<close>

definition readPrd_workdir :: "runtime \<Rightarrow> string \<Rightarrow> PRD option" where
  "readPrd_workdir rt projectDir =
     (case readTextFile rt (projectDir @ ''/prd.json'') of
        Threw \<Rightarrow> None
      | Returned text \<Rightarrow>
          (case JSON_parse rt text of Threw \<Rightarrow> None | Returned v \<Rightarrow> v))"

text \<open>
  The first attempt of \<^verbatim>\<open>readPrd\<close>, lines 93-106 of prd-read.ts: \<open>None\<close> when the
  \<^verbatim>\<open>try\<close> block is left without a \<^verbatim>\<open>return\<close>, by a throw or by a failed \<^verbatim>\<open>git show\<close>;
  \<open>Some v\<close> when line 102 returns \<open>v\<close>, the value of \<^verbatim>\<open>JSON.parse\<close>, which may be
  \<^verbatim>\<open>null\<close>.
\<close>

definition readPrd_bare :: "runtime \<Rightarrow> string \<Rightarrow> PRD option option" where
  "readPrd_bare rt projectDir =
     (let bareRepo = projectDir @ ''/.ralph/repo.git''
      in case stat rt bareRepo of
           Threw \<Rightarrow> None
         | Returned _ \<Rightarrow>
             (case resolveLatestPrdRef rt bareRepo of
                Threw \<Rightarrow> None
              | Returned ref \<Rightarrow>
                  (case exec rt [''git'', ''show'', ref @ '':prd.json''] (Some bareRepo) of
                     Threw \<Rightarrow> None
                   | Returned result \<Rightarrow>
                       if success result
                       then (case JSON_parse rt (stdout result) of
                               Threw \<Rightarrow> None
                             | Returned v \<Rightarrow> Some v)
                       else None)))"

text \<open>
  \<^verbatim>\<open>readPrd\<close> of prd-read.ts, lines 90-115 (\<^verbatim>\<open>readPrdFromBareRepo\<close> of the status
  tool is the same text).
\<close>

definition readPrd :: "runtime \<Rightarrow> string \<Rightarrow> PRD option" where
  "readPrd rt projectDir =
     (case readPrd_bare rt projectDir of
        Some v \<Rightarrow> v
      | None \<Rightarrow> readPrd_workdir rt projectDir)"

section \<open>The log scanner of \<^verbatim>\<open>tools/changes.ts\<close>\<close>

record NewFile =
  nf_name :: string
  nf_mtime :: int

record LogEntry =
  file' :: string
  last_lines :: string

record LogDelta =
  new_count :: nat
  recent_summaries :: "LogEntry list"

text \<open>
  The loop over the directory, lines 246-254, inside \<^verbatim>\<open>try\<close>: a throw of \<^verbatim>\<open>Deno.stat\<close>
  leaves the loop. A missing \<^verbatim>\<open>mtime\<close> counts as \<open>0\<close>.
\<close>

fun scan_loop :: "runtime \<Rightarrow> string \<Rightarrow> jsnum \<Rightarrow> DirEntry list \<Rightarrow> NewFile list outcome" where
  "scan_loop rt logsDir sinceTimestamp [] = Returned []"
| "scan_loop rt logsDir sinceTimestamp (e # es) =
     (if isFile e \<and> endsWith ''.log'' (entry_name e)
      then (case stat rt (logsDir @ ''/'' @ entry_name e) of
              Threw \<Rightarrow> Threw
            | Returned st \<Rightarrow>
                (let mtime = (case stat_mtime st of Some m \<Rightarrow> m | None \<Rightarrow> 0)
                 in case scan_loop rt logsDir sinceTimestamp es of
                      Threw \<Rightarrow> Threw
                    | Returned fs \<Rightarrow>
                        Returned (if num_gt (Some mtime) sinceTimestamp
                                  then \<lparr>nf_name = entry_name e, nf_mtime = mtime\<rparr> # fs
                                  else fs)))
      else scan_loop rt logsDir sinceTimestamp es)"

text \<open>\<^verbatim>\<open>content.split("\n").slice(-10).join("\n")\<close>, lines 266-267.\<close>

definition tail_lines :: "string \<Rightarrow> string" where
  "tail_lines content =
     (let lines = split_on (CHR 0x0A) content
      in join_with (CHR 0x0A) (drop (length lines - 10) lines))"

text \<open>The reads of lines 263-270; \<^verbatim>\<open>Promise.all\<close> rejects when one read does.\<close>

fun read_summaries :: "runtime \<Rightarrow> string \<Rightarrow> NewFile list \<Rightarrow> LogEntry list outcome" where
  "read_summaries rt logsDir [] = Returned []"
| "read_summaries rt logsDir (f # fs) =
     (case readTextFile rt (logsDir @ ''/'' @ nf_name f) of
        Threw \<Rightarrow> Threw
      | Returned content \<Rightarrow>
          (case read_summaries rt logsDir fs of
             Threw \<Rightarrow> Threw
           | Returned ss \<Rightarrow> Returned (\<lparr>file' = nf_name f, last_lines = tail_lines content\<rparr> # ss)))"

text \<open>
  \<^verbatim>\<open>newFiles.sort((a, b) => b.mtime - a.mtime)\<close>: the engine's sort is stable, and so
  is \<open>sort_key\<close>; the key is the negated time, newest first.
\<close>

definition sort_newest_first :: "NewFile list \<Rightarrow> NewFile list" where
  "sort_newest_first fs = sort_key (\<lambda>f. - nf_mtime f) fs"

text \<open>\<^verbatim>\<open>scanNewLogs\<close>, lines 239-273.\<close>

definition scanNewLogs :: "runtime \<Rightarrow> string \<Rightarrow> jsnum \<Rightarrow> LogDelta outcome" where
  "scanNewLogs rt logsDir sinceTimestamp =
     (case readDir rt logsDir of
        Threw \<Rightarrow> Returned \<lparr>new_count = 0, recent_summaries = []\<rparr>
      | Returned entries \<Rightarrow>
          (case scan_loop rt logsDir sinceTimestamp entries of
             Threw \<Rightarrow> Returned \<lparr>new_count = 0, recent_summaries = []\<rparr>
           | Returned newFiles \<Rightarrow>
               (let top = take 5 (sort_newest_first newFiles)
                in case read_summaries rt logsDir top of
                     Threw \<Rightarrow> Threw
                   | Returned summaries \<Rightarrow>
                       Returned \<lparr>new_count = length newFiles, recent_summaries = summaries\<rparr>)))"

section \<open>The delta tool \<^verbatim>\<open>ralph_changes\<close> of \<^verbatim>\<open>tools/changes.ts\<close>\<close>

record Commit =
  hash :: string
  message :: string

record ContainerDelta =
  current :: "ContainerInfo list"
  likely_new :: "string list"

text \<open>\<^verbatim>\<open>ChangesResult\<close>; its field \<^verbatim>\<open>project\<close> is \<open>cr_project\<close> here.\<close>

record ChangesResult =
  cr_project :: string
  since_commit :: string
  latest_commit :: string
  new_commits :: "Commit list"
  story_transitions :: "StoryTransition list"
  new_log_entries :: LogDelta
  containers :: ContainerDelta

text \<open>\<^verbatim>\<open>.catch(() => ({ success: false, stdout: "", stderr: "", code: 1 }))\<close>.\<close>

definition catch_exec :: "ExecResult outcome \<Rightarrow> ExecResult" where
  "catch_exec r =
     (case r of
        Threw \<Rightarrow> \<lparr>success = False, stdout = [], stderr = [], code = 1\<rparr>
      | Returned x \<Rightarrow> x)"

text \<open>\<^verbatim>\<open>stdout.trim().split("\n").filter((l) => l.length > 0)\<close>.\<close>

definition output_lines :: "string \<Rightarrow> string list" where
  "output_lines out = filter (\<lambda>l. length l > 0) (split_on (CHR 0x0A) (trim out))"

text \<open>
  Lines 113-123: a \<^verbatim>\<open>since_commit\<close> that is missing or empty is falsy and is looked up;
  the lookup is not inside a handler.
\<close>

definition resolve_sinceCommit :: "runtime \<Rightarrow> string \<Rightarrow> string option \<Rightarrow> string outcome" where
  "resolve_sinceCommit rt bareRepo since_arg =
     (case since_arg of
        Some (c # cs) \<Rightarrow> Returned (c # cs)
      | _ \<Rightarrow>
          (case exec rt [''git'', ''rev-list'', ''--max-parents=0'', ''HEAD''] (Some bareRepo) of
             Threw \<Rightarrow> Threw
           | Returned initResult \<Rightarrow>
               Returned (if success initResult
                         then first_piece (split_on (CHR 0x0A) (trim (stdout initResult)))
                         else ''HEAD'')))"

text \<open>Lines 125-131.\<close>

definition resolve_latestCommit :: "runtime \<Rightarrow> string \<Rightarrow> string outcome" where
  "resolve_latestCommit rt bareRepo =
     (case exec rt [''git'', ''rev-parse'', ''HEAD''] (Some bareRepo) of
        Threw \<Rightarrow> Threw
      | Returned headResult \<Rightarrow>
          Returned (if success headResult then trim (stdout headResult) else ''unknown''))"

text \<open>Lines 133-140.\<close>

definition resolve_sinceTimestamp :: "runtime \<Rightarrow> string \<Rightarrow> string \<Rightarrow> jsnum outcome" where
  "resolve_sinceTimestamp rt bareRepo sinceCommit =
     (case exec rt [''git'', ''show'', ''-s'', ''--format=%ct'', sinceCommit] (Some bareRepo) of
        Threw \<Rightarrow> Threw
      | Returned r \<Rightarrow>
          Returned (if success r
                    then num_mul (parseInt10 (trim (stdout r))) (Some 1000)
                    else Some 0))"

text \<open>Lines 171-184.\<close>

definition parse_commit_line :: "string \<Rightarrow> Commit" where
  "parse_commit_line line =
     (let spaceIdx = indexOf (CHR '' '') line
      in \<lparr>hash = substring line 0 spaceIdx, message = substring_from line (spaceIdx + 1)\<rparr>)"

definition parse_commits :: "ExecResult \<Rightarrow> Commit list" where
  "parse_commits commitsResult =
     (if success commitsResult
      then map parse_commit_line (output_lines (stdout commitsResult))
      else [])"

text \<open>Lines 189-199.\<close>

definition parse_containers :: "ExecResult \<Rightarrow> ContainerInfo list" where
  "parse_containers dockerResult =
     (if success dockerResult
      then map parse_container (output_lines (stdout dockerResult))
      else [])"

text \<open>
  \<^verbatim>\<open>changesTool.handler\<close>, lines 105-236, up to the serialisation of its result. The
  five lookups of \<^verbatim>\<open>Promise.all\<close> read one runtime; two of them carry a
  \<^verbatim>\<open>catch\<close>, the two ledger reads cannot throw, the log scan can.
\<close>

definition changes_handler :: "runtime \<Rightarrow> string \<Rightarrow> string option \<Rightarrow> ChangesResult outcome" where
  "changes_handler rt project_dir since_arg =
     (let bareRepo = project_dir @ ''/.ralph/repo.git'';
          logsDir = project_dir @ ''/agent_logs''
      in case resolve_sinceCommit rt bareRepo since_arg of
           Threw \<Rightarrow> Threw
         | Returned sinceCommit \<Rightarrow>
        (case resolve_latestCommit rt bareRepo of
           Threw \<Rightarrow> Threw
         | Returned latestCommit \<Rightarrow>
        (case resolve_sinceTimestamp rt bareRepo sinceCommit of
           Threw \<Rightarrow> Threw
         | Returned sinceTimestamp \<Rightarrow>
        (let commitsResult =
               catch_exec (exec rt [''git'', ''log'', ''--oneline'', sinceCommit @ ''..HEAD'', ''--all'']
                                (Some bareRepo));
             oldPrd = readPrdAtCommit rt bareRepo sinceCommit;
             newPrd = readPrdAtCommit rt bareRepo ''HEAD'';
             dockerResult =
               catch_exec (exec rt [''docker'', ''ps'', ''--filter'', ''name=ralph-'', ''--format'',
                                    ''{{.Names}}'' @ [CHR 0x09] @ ''{{.Status}}'' @ [CHR 0x09]
                                      @ ''{{.RunningFor}}'']
                                None)
         in case scanNewLogs rt logsDir sinceTimestamp of
              Threw \<Rightarrow> Threw
            | Returned logEntries \<Rightarrow>
           (let newCommits = parse_commits commitsResult;
                storyTransitions = diffStories oldPrd newPrd;
                conts = parse_containers dockerResult
            in case likelyNew_filter (now rt) sinceTimestamp conts of
                 Threw \<Rightarrow> Threw
               | Returned likelyNew \<Rightarrow>
                   Returned
                     \<lparr>cr_project = project_dir,
                      since_commit = sinceCommit,
                      latest_commit = latestCommit,
                      new_commits = newCommits,
                      story_transitions = storyTransitions,
                      new_log_entries = logEntries,
                      containers = \<lparr>current = conts, likely_new = map name likelyNew\<rparr>\<rparr>)))))"

section \<open>The status board of \<^verbatim>\<open>ralph_status\<close> and the groups of \<^verbatim>\<open>ralph_prd_read\<close>\<close>

text \<open>Truthiness of \<^verbatim>\<open>s.verified\<close>.\<close>

definition is_verified :: "UserStory \<Rightarrow> bool" where
  "is_verified s = (verified s = Some True)"

text \<open>
  \<^verbatim>\<open>userStories.some((s) => s.verified !== undefined)\<close>: line 35 of prd-read.ts and
  the same line of the status tool.
\<close>

definition hasVerifiers :: "UserStory list \<Rightarrow> bool" where
  "hasVerifiers us = list_ex (\<lambda>s. verified s \<noteq> None) us"

text \<open>
  The loop body of the status tool (\<^verbatim>\<open>statusTool.handler\<close>): the list a story is
  pushed to.
\<close>

datatype bucket = Done | Verifying | Claimed | Available

definition status_bucket :: "bool \<Rightarrow> UserStory \<Rightarrow> bucket" where
  "status_bucket hv story =
     (if passes story \<and> (is_verified story \<or> \<not> hv) then Done
      else if passes story \<and> hv \<and> \<not> is_verified story then Verifying
      else if truthy_str (claimed_by story) then Claimed
      else Available)"

text \<open>The groups of \<^verbatim>\<open>prdReadTool.handler\<close>, lines 27-37 of prd-read.ts.\<close>

definition pr_available :: "PRD \<Rightarrow> UserStory list" where
  "pr_available prd =
     sort_key priority (filter (\<lambda>s. \<not> passes s \<and> \<not> truthy_str (claimed_by s)) (userStories prd))"

definition pr_claimed :: "PRD \<Rightarrow> UserStory list" where
  "pr_claimed prd = filter (\<lambda>s. \<not> passes s \<and> truthy_str (claimed_by s)) (userStories prd)"

definition pr_verifying :: "PRD \<Rightarrow> UserStory list" where
  "pr_verifying prd = filter (\<lambda>s. passes s \<and> \<not> is_verified s) (userStories prd)"

definition pr_done :: "PRD \<Rightarrow> UserStory list" where
  "pr_done prd = filter (\<lambda>s. passes s \<and> is_verified s) (userStories prd)"

definition effectiveDone :: "PRD \<Rightarrow> UserStory list" where
  "effectiveDone prd =
     (if hasVerifiers (userStories prd) then pr_done prd else filter passes (userStories prd))"

definition effectiveVerifying :: "PRD \<Rightarrow> UserStory list" where
  "effectiveVerifying prd = (if hasVerifiers (userStories prd) then pr_verifying prd else [])"

section \<open>The ledger edit of \<^verbatim>\<open>tools/prd-update.ts\<close>\<close>

text \<open>
  The \<^verbatim>\<open>story\<close> argument, \<^verbatim>\<open>Partial<UserStory> & { id: string }\<close>, with the fields the
  parameter schema lets through; \<open>None\<close> and \<open>Undefined\<close> are a missing field.
\<close>

record StoryArg =
  a_id :: string
  a_title :: "string option"
  a_description :: "string option"
  a_acceptanceCriteria :: "string list option"
  a_priority :: "int option"
  a_notes :: "string option"
  a_verified :: "bool option"
  a_verified_by :: "string nullable"
  a_verified_at :: "string nullable"
  a_verification_notes :: "string nullable"

datatype action = add_story | edit_story | remove_story

datatype update_error = MissingFields | AlreadyExists string | NotFound string

text \<open>\<^verbatim>\<open>!story.title\<close>: a missing or an empty string.\<close>

definition falsy_str :: "string option \<Rightarrow> bool" where
  "falsy_str x = (case x of None \<Rightarrow> True | Some s \<Rightarrow> s = [])"

text \<open>\<^verbatim>\<open>Math.max(0, ...prd.userStories.map((s) => s.priority)) + 1\<close>.\<close>

definition next_priority :: "UserStory list \<Rightarrow> int" where
  "next_priority us = foldr max (map priority us) 0 + 1"

text \<open>The story that \<^verbatim>\<open>add_story\<close> builds, lines 85-100.\<close>

definition newStory :: "PRD \<Rightarrow> StoryArg \<Rightarrow> string \<Rightarrow> string \<Rightarrow> string list \<Rightarrow> UserStory" where
  "newStory prd story t d ac =
     \<lparr>id' = a_id story,
      title = t,
      description = d,
      acceptanceCriteria = ac,
      priority = (case a_priority story of Some p \<Rightarrow> p | None \<Rightarrow> next_priority (userStories prd)),
      passes = False,
      notes' = Some (case a_notes story of Some n \<Rightarrow> n | None \<Rightarrow> []),
      claimed_by = Null,
      claimed_at = Null,
      verified = Some False,
      verified_by = Null,
      verified_at = Null,
      verification_notes = Null\<rparr>"

text \<open>The assignments of \<^verbatim>\<open>edit_story\<close>, lines 112-120.\<close>

definition edit_fields :: "StoryArg \<Rightarrow> UserStory \<Rightarrow> UserStory" where
  "edit_fields story existing =
     existing
       \<lparr>title := (case a_title story of Some x \<Rightarrow> x | None \<Rightarrow> title existing),
        description := (case a_description story of Some x \<Rightarrow> x | None \<Rightarrow> description existing),
        acceptanceCriteria :=
          (case a_acceptanceCriteria story of Some x \<Rightarrow> x | None \<Rightarrow> acceptanceCriteria existing),
        priority := (case a_priority story of Some x \<Rightarrow> x | None \<Rightarrow> priority existing),
        notes' := (case a_notes story of Some x \<Rightarrow> Some x | None \<Rightarrow> notes' existing),
        verified := (case a_verified story of Some x \<Rightarrow> Some x | None \<Rightarrow> verified existing),
        verified_by :=
          (case a_verified_by story of Undefined \<Rightarrow> verified_by existing | x \<Rightarrow> x),
        verified_at :=
          (case a_verified_at story of Undefined \<Rightarrow> verified_at existing | x \<Rightarrow> x),
        verification_notes :=
          (case a_verification_notes story of Undefined \<Rightarrow> verification_notes existing | x \<Rightarrow> x)\<rparr>"

text \<open>\<^verbatim>\<open>findIndex\<close> by identifier, then the replacement or the \<^verbatim>\<open>splice\<close> at that index.\<close>

fun edit_first :: "string \<Rightarrow> (UserStory \<Rightarrow> UserStory) \<Rightarrow> UserStory list \<Rightarrow> UserStory list" where
  "edit_first k f [] = []"
| "edit_first k f (s # ss) = (if id' s = k then f s # ss else s # edit_first k f ss)"

fun remove_first :: "string \<Rightarrow> UserStory list \<Rightarrow> UserStory list" where
  "remove_first k [] = []"
| "remove_first k (s # ss) = (if id' s = k then ss else s # remove_first k ss)"

text \<open>
  The \<^verbatim>\<open>switch\<close> of \<^verbatim>\<open>prdUpdateTool.handler\<close>, lines 74-139, on the ledger it has
  read: the ledger that is then written, committed and pushed, or the error returned
  instead. The commit message is left out.
\<close>

definition apply_action :: "action \<Rightarrow> StoryArg \<Rightarrow> PRD \<Rightarrow> update_error + PRD" where
  "apply_action act story prd =
     (case act of
        add_story \<Rightarrow>
          (if falsy_str (a_title story) \<or> falsy_str (a_description story)
              \<or> a_acceptanceCriteria story = None
           then Inl MissingFields
           else if list_ex (\<lambda>s. id' s = a_id story) (userStories prd)
           then Inl (AlreadyExists (a_id story))
           else (case (a_title story, a_description story, a_acceptanceCriteria story) of
                   (Some t, Some d, Some ac) \<Rightarrow>
                     Inr (prd\<lparr>userStories := userStories prd @ [newStory prd story t d ac]\<rparr>)
                 | _ \<Rightarrow> Inl MissingFields))
      | edit_story \<Rightarrow>
          (if list_ex (\<lambda>s. id' s = a_id story) (userStories prd)
           then Inr (prd\<lparr>userStories := edit_first (a_id story) (edit_fields story) (userStories prd)\<rparr>)
           else Inl (NotFound (a_id story)))
      | remove_story \<Rightarrow>
          (if list_ex (\<lambda>s. id' s = a_id story) (userStories prd)
           then Inr (prd\<lparr>userStories := remove_first (a_id story) (userStories prd)\<rparr>)
           else Inl (NotFound (a_id story))))"

section \<open>The shared repository behind \<open>exec\<close>\<close>

text \<open>
  Modelled from the spec: the versioned-store accessor (git, an external program) that
  answers the tool's \<^verbatim>\<open>git\<close> commands. Section 3 of the specification: "new commits
  since X" means all commits reachable from the head that are not reachable from X, across
  all branches; section 6 lists the lookups. A repository is its commits (in the order a
  log lists them), the commits its refs point to, and the commit \<^verbatim>\<open>HEAD\<close> resolves to
  (\<open>None\<close> in a repository without commits).
\<close>

record GitCommit =
  c_hash :: string
  c_parents :: "string list"
  c_subject :: string
  c_time :: nat

record GitRepo =
  objects :: "GitCommit list"
  ref_tips :: "string list"
  head :: "string option"

definition parents_of :: "GitRepo \<Rightarrow> string \<Rightarrow> string list" where
  "parents_of g h = concat (map c_parents (filter (\<lambda>c. c_hash c = h) (objects g)))"

text \<open>
  The hashes reachable from a list of hashes: the parents are added once for each commit
  of the repository, which is as long as a chain of ancestors can be.
\<close>

fun reach_n :: "nat \<Rightarrow> GitRepo \<Rightarrow> string list \<Rightarrow> string list" where
  "reach_n 0 g hs = hs"
| "reach_n (Suc n) g hs = reach_n n g (remdups (hs @ concat (map (parents_of g) hs)))"

definition reachable :: "GitRepo \<Rightarrow> string list \<Rightarrow> string list" where
  "reachable g tips = reach_n (length (objects g)) g tips"

text \<open>A revision the tool passes: \<^verbatim>\<open>HEAD\<close> or a full hash.\<close>

definition rev_parse :: "GitRepo \<Rightarrow> string \<Rightarrow> string option" where
  "rev_parse g r =
     (if r = ''HEAD'' then head g
      else if r \<in> set (map c_hash (objects g)) then Some r
      else None)"

definition git_ok :: "string \<Rightarrow> ExecResult" where
  "git_ok out = \<lparr>success = True, stdout = out, stderr = [], code = 0\<rparr>"

definition git_fail :: ExecResult where
  "git_fail = \<lparr>success = False, stdout = [], stderr = ''fatal'', code = 128\<rparr>"

definition unlines :: "string list \<Rightarrow> string" where
  "unlines ls = concat (map (\<lambda>l. l @ [CHR 0x0A]) ls)"

text \<open>Decimal digits of a number, as \<^verbatim>\<open>--format=%ct\<close> prints a commit time.\<close>

fun dec_str :: "nat \<Rightarrow> string" where
  "dec_str n =
     (if n < 10 then [char_of (48 + n)]
      else dec_str (n div 10) @ [char_of (48 + n mod 10)])"

text \<open>
  The answers to the four commands of \<^verbatim>\<open>changesTool.handler\<close>; \<^verbatim>\<open>--oneline\<close> prints
  the first seven characters of a hash and the subject. Any other \<^verbatim>\<open>git\<close> command fails
  (the files of a commit are not modelled); any other program cannot be started.
\<close>

definition git_exec :: "GitRepo \<Rightarrow> string list \<Rightarrow> string option \<Rightarrow> ExecResult outcome" where
  "git_exec g argv cwd =
     (if argv = [''git'', ''rev-parse'', ''HEAD'']
      then Returned (case head g of None \<Rightarrow> git_fail | Some h \<Rightarrow> git_ok (h @ [CHR 0x0A]))
      else if argv = [''git'', ''rev-list'', ''--max-parents=0'', ''HEAD'']
      then Returned
             (case head g of
                None \<Rightarrow> git_fail
              | Some h \<Rightarrow>
                  git_ok (unlines (map c_hash
                    (filter (\<lambda>c. c_parents c = [] \<and> c_hash c \<in> set (reachable g [h]))
                            (objects g)))))
      else if length argv = 5 \<and> take 4 argv = [''git'', ''show'', ''-s'', ''--format=%ct'']
      then Returned
             (case rev_parse g (argv ! 4) of
                None \<Rightarrow> git_fail
              | Some h \<Rightarrow>
                  (case filter (\<lambda>c. c_hash c = h) (objects g) of
                     [] \<Rightarrow> git_fail
                   | c # _ \<Rightarrow> git_ok (dec_str (c_time c) @ [CHR 0x0A])))
      else if length argv = 5 \<and> take 3 argv = [''git'', ''log'', ''--oneline'']
              \<and> argv ! 4 = ''--all'' \<and> endsWith ''..HEAD'' (argv ! 3)
      then Returned
             (case (rev_parse g (take (length (argv ! 3) - 6) (argv ! 3)), head g) of
                (Some s, Some h) \<Rightarrow>
                  git_ok (unlines (map (\<lambda>c. take 7 (c_hash c) @ '' '' @ c_subject c)
                    (filter (\<lambda>c. c_hash c \<in> set (reachable g (h # ref_tips g))
                                 \<and> c_hash c \<notin> set (reachable g [s]))
                            (objects g))))
              | _ \<Rightarrow> git_fail)
      else if take 1 argv = [''git''] then Returned git_fail
      else Threw)"

text \<open>
  A runtime over a repository: no process listing, no log directory, no file outside
  the repository.
\<close>

definition git_runtime :: "GitRepo \<Rightarrow> runtime" where
  "git_runtime g =
     \<lparr>exec = git_exec g,
      stat = (\<lambda>_. Threw),
      readTextFile = (\<lambda>_. Threw),
      readDir = (\<lambda>_. Threw),
      JSON_parse = (\<lambda>_. Threw),
      now = 0\<rparr>"

section \<open>The log files that qualify\<close>

text \<open>
  The words of section 4.5 of the specification, to state what \<^verbatim>\<open>scanNewLogs\<close> returns:
  a log file is a file whose name ends in \<^verbatim>\<open>.log\<close>; it qualifies when its time of last
  modification is after the reference time; its summary is its name with the tail of its
  content.
\<close>

definition is_log :: "DirEntry \<Rightarrow> bool" where
  "is_log e = (isFile e \<and> endsWith ''.log'' (entry_name e))"

definition mtime_at :: "runtime \<Rightarrow> string \<Rightarrow> string \<Rightarrow> int" where
  "mtime_at rt logsDir nm =
     (case stat rt (logsDir @ ''/'' @ nm) of
        Returned st \<Rightarrow> (case stat_mtime st of Some m \<Rightarrow> m | None \<Rightarrow> 0)
      | Threw \<Rightarrow> 0)"

definition content_at :: "runtime \<Rightarrow> string \<Rightarrow> string \<Rightarrow> string" where
  "content_at rt logsDir nm =
     (case readTextFile rt (logsDir @ ''/'' @ nm) of Returned c \<Rightarrow> c | Threw \<Rightarrow> [])"

definition qualifying :: "runtime \<Rightarrow> string \<Rightarrow> int \<Rightarrow> DirEntry list \<Rightarrow> NewFile list" where
  "qualifying rt logsDir t es =
     map (\<lambda>e. \<lparr>nf_name = entry_name e, nf_mtime = mtime_at rt logsDir (entry_name e)\<rparr>)
         (filter (\<lambda>e. is_log e \<and> t < mtime_at rt logsDir (entry_name e)) es)"

definition summary_of :: "runtime \<Rightarrow> string \<Rightarrow> NewFile \<Rightarrow> LogEntry" where
  "summary_of rt logsDir f =
     \<lparr>file' = nf_name f, last_lines = tail_lines (content_at rt logsDir (nf_name f))\<rparr>"

section \<open>Example ledgers\<close>

text \<open>A story with the fields every ledger carries and none of the optional ones.\<close>

definition plain_story :: "string \<Rightarrow> string \<Rightarrow> bool \<Rightarrow> UserStory" where
  "plain_story i t p =
     \<lparr>id' = i, title = t, description = [], acceptanceCriteria = [], priority = 1,
      passes = p, notes' = None, claimed_by = Undefined, claimed_at = Undefined,
      verified = None, verified_by = Undefined, verified_at = Undefined,
      verification_notes = Undefined\<rparr>"

definition ledger :: "UserStory list \<Rightarrow> PRD" where
  "ledger us = \<lparr>project = ''demo'', branchName = None, prd_description = None, userStories = us\<rparr>"

text \<open>A story that was built and is waiting for its verifier.\<close>

definition built_story :: UserStory where
  "built_story = (plain_story ''US-1'' ''Export'' True)\<lparr>verified := Some False\<rparr>"

text \<open>The argument of an \<^verbatim>\<open>add_story\<close> call.\<close>

definition story_arg :: StoryArg where
  "story_arg =
     \<lparr>a_id = ''US-2'', a_title = Some ''Import'', a_description = Some ''Read a file'',
      a_acceptanceCriteria = Some [''reads CSV''], a_priority = None, a_notes = None,
      a_verified = None, a_verified_by = Undefined, a_verified_at = Undefined,
      a_verification_notes = Undefined\<rparr>"

section \<open>Example repositories and runtimes\<close>

text \<open>
  A shared repository as the tools meet it: \<^verbatim>\<open>HEAD\<close> and the default branch stay at the
  first commit, a worker has pushed one commit to a branch of its own.
\<close>

definition side_repo :: GitRepo where
  "side_repo =
     \<lparr>objects =
        [\<lparr>c_hash = ''b2b2b2b'', c_parents = [''a1a1a1a''], c_subject = ''US-1 done'', c_time = 200\<rparr>,
         \<lparr>c_hash = ''a1a1a1a'', c_parents = [], c_subject = ''init'', c_time = 100\<rparr>],
      ref_tips = [''a1a1a1a'', ''b2b2b2b''],
      head = Some ''a1a1a1a''\<rparr>"

text \<open>What \<^verbatim>\<open>ralph_changes\<close> answers on that repository.\<close>

definition poll_result :: ChangesResult where
  "poll_result =
     \<lparr>cr_project = ''/p'', since_commit = ''a1a1a1a'', latest_commit = ''a1a1a1a'',
      new_commits = [\<lparr>hash = ''b2b2b2b'', message = ''US-1 done''\<rparr>],
      story_transitions = [],
      new_log_entries = \<lparr>new_count = 0, recent_summaries = []\<rparr>,
      containers = \<lparr>current = [], likely_new = []\<rparr>\<rparr>"

text \<open>A machine on which no process can be started and no file exists.\<close>

definition no_process :: runtime where
  "no_process =
     \<lparr>exec = (\<lambda>_ _. Threw),
      stat = (\<lambda>_. Threw),
      readTextFile = (\<lambda>_. Threw),
      readDir = (\<lambda>_. Threw),
      JSON_parse = (\<lambda>_. Threw),
      now = 0\<rparr>"

text \<open>
  A project at \<^verbatim>\<open>/p\<close>: the newest commit that touches the ledger is on a worker's branch
  and holds one built story; the copy in the working directory is an older, empty ledger.
  \<^verbatim>\<open>{new}\<close> and \<^verbatim>\<open>{old}\<close> stand for the two documents.
\<close>

definition project_runtime :: runtime where
  "project_runtime =
     \<lparr>exec = (\<lambda>argv cwd.
         if argv = [''git'', ''log'', ''--all'', ''-1'', ''--format=%H'', ''--'', ''prd.json'']
         then Returned (git_ok (''b2b2b2b'' @ [CHR 0x0A]))
         else if argv = [''git'', ''show'', ''b2b2b2b:prd.json'']
         then Returned (git_ok ''{new}'')
         else if take 1 argv = [''git''] then Returned git_fail
         else Threw),
      stat = (\<lambda>_. Returned \<lparr>stat_mtime = Some 5\<rparr>),
      readTextFile = (\<lambda>p. if p = ''/p/prd.json'' then Returned ''{old}'' else Threw),
      readDir = (\<lambda>_. Threw),
      JSON_parse = (\<lambda>s. if s = ''{new}'' then Returned (Some (ledger [built_story]))
                        else if s = ''{old}'' then Returned (Some (ledger []))
                        else if s = ''null'' then Returned None
                        else Threw),
      now = 0\<rparr>"

text \<open>
  The same project when the file \<^verbatim>\<open>prd.json\<close> of the newest commit holds the JSON
  document \<^verbatim>\<open>null\<close>.
\<close>

definition null_ledger_runtime :: runtime where
  "null_ledger_runtime =
     project_runtime
       \<lparr>exec := (\<lambda>argv cwd.
          if argv = [''git'', ''log'', ''--all'', ''-1'', ''--format=%H'', ''--'', ''prd.json'']
          then Returned (git_ok (''b2b2b2b'' @ [CHR 0x0A]))
          else if argv = [''git'', ''show'', ''b2b2b2b:prd.json'']
          then Returned (git_ok ''null'')
          else if take 1 argv = [''git''] then Returned git_fail
          else Threw)\<rparr>"

text \<open>
  A log directory: eight log files newer than the reference time 100, one that is not,
  and a file that is no log. The second file has twelve lines.
\<close>

definition twelve_lines :: string where
  "twelve_lines =
     join_with (CHR 0x0A)
       [''l1'', ''l2'', ''l3'', ''l4'', ''l5'', ''l6'', ''l7'', ''l8'', ''l9'', ''l10'', ''l11'', ''l12'']"

definition log_table :: "(string \<times> int \<times> string) list" where
  "log_table =
     [(''agent-1.log'', 101, ''one''),
      (''agent-2.log'', 108, twelve_lines),
      (''agent-3.log'', 103, ''three''),
      (''agent-4.log'', 107, ''four''),
      (''agent-5.log'', 105, ''five''),
      (''agent-6.log'', 106, ''six''),
      (''agent-7.log'', 104, ''seven''),
      (''agent-8.log'', 102, ''eight''),
      (''agent-0.log'', 100, ''zero''),
      (''notes.txt'', 109, ''no log'')]"

definition logs_runtime :: runtime where
  "logs_runtime =
     \<lparr>exec = (\<lambda>_ _. Threw),
      stat = (\<lambda>p. case map_of (map (\<lambda>(n, m, c). (''/p/agent_logs/'' @ n, m)) log_table) p of
                    Some m \<Rightarrow> Returned \<lparr>stat_mtime = Some m\<rparr>
                  | None \<Rightarrow> Threw),
      readTextFile = (\<lambda>p. case map_of (map (\<lambda>(n, m, c). (''/p/agent_logs/'' @ n, c)) log_table) p of
                    Some c \<Rightarrow> Returned c
                  | None \<Rightarrow> Threw),
      readDir = (\<lambda>d. if d = ''/p/agent_logs''
                     then Returned (map (\<lambda>(n, m, c). \<lparr>entry_name = n, isFile = True\<rparr>) log_table)
                     else Threw),
      JSON_parse = (\<lambda>_. Threw),
      now = 0\<rparr>"

section \<open>Facts about the story diff\<close>

lemma foldl_upd_None:
  "(foldl (\<lambda>m s. m(id' s \<mapsto> s)) m0 xs k = None) = (m0 k = None \<and> k \<notin> id' ` set xs)"
  by (induction xs arbitrary: m0) auto

lemma oldMap_of_None: "(oldMap_of b k = None) = (k \<notin> ids_of b)"
  by (cases b) (simp_all add: oldMap_of_def ids_of_def foldl_upd_None)

lemma storyStatus_not_new: "storyStatus s \<noteq> ''new''"
  by (simp add: storyStatus_def)

lemma diff_loop_new:
  "s \<in> set ss \<Longrightarrow> m (id' s) = None \<Longrightarrow>
   \<lparr>t_id = id' s, t_title = title s, t_from = ''new'', t_to = storyStatus s\<rparr>
     \<in> set (diff_loop m ss)"
proof (induction ss)
  case Nil
  then show ?case by simp
next
  case (Cons a ss)
  show ?case
  proof (cases "a = s")
    case True
    with Cons.prems show ?thesis
      using storyStatus_not_new [of s] by (simp add: Let_def)
  next
    case False
    with Cons show ?thesis by (simp add: Let_def)
  qed
qed

lemma diff_loop_ids: "t \<in> set (diff_loop m ss) \<Longrightarrow> t_id t \<in> id' ` set ss"
  by (induction ss) (auto simp: Let_def split: if_splits)

text \<open>
  A story of the current ledger whose identifier the baseline does not hold (or whose
  baseline is absent) gets a transition from the literal status \<open>new\<close> to the status
  \<open>storyStatus\<close> gives it, with its identifier and title; an absent current ledger
  gives no transition.
\<close>

lemma diffStories_new_story:
  "(s \<in> set (userStories cur) \<and> id' s \<notin> ids_of baseline \<longrightarrow>
      \<lparr>t_id = id' s, t_title = title s, t_from = ''new'', t_to = storyStatus s\<rparr>
        \<in> set (diffStories baseline (Some cur)))
   \<and> diffStories baseline None = []"
  by (simp add: diffStories_def diff_loop_new oldMap_of_None)

text \<open>
  \<open>storyStatus\<close> answers \<open>done\<close> by the rule of the derived status (the completion
  flag is set, and verification is not in use or the story is verified) for every story
  but one that passes, is not verified, and stands in a ledger where verification is in
  use.
\<close>

lemma storyStatus_done_by_rule:
  "\<not> (passes s \<and> inUse \<and> \<not> is_verified s) \<Longrightarrow>
   (storyStatus s = ''done'') = (passes s \<and> (\<not> inUse \<or> is_verified s))"
  by (auto simp: storyStatus_def)

text \<open>
  C7. The claim: a story of the current ledger without counterpart in the baseline gets a
  transition from \<open>new\<close> to its derived status under the current ledger. The code at an
  absent baseline and a current ledger whose one story is built and not yet verified:
  verification is in use and the story is not verified, so its derived status is not
  \<open>done\<close> (the status tool and the ledger reading tool hold it as verifying, and hold
  no story as done); the transition the story diff emits is from \<open>new\<close> to \<open>done\<close>.
  The \<open>from\<close> side and the identifier are as the claim says.
\<close>

theorem diffStories_new_story_status:
  "diffStories None (Some (ledger [built_story]))
     = [\<lparr>t_id = ''US-1'', t_title = ''Export'', t_from = ''new'', t_to = ''done''\<rparr>]
   \<and> passes built_story
   \<and> hasVerifiers (userStories (ledger [built_story]))
   \<and> \<not> is_verified built_story
   \<and> status_bucket (hasVerifiers (userStories (ledger [built_story]))) built_story = Verifying
   \<and> effectiveDone (ledger [built_story]) = []
   \<and> effectiveVerifying (ledger [built_story]) = [built_story]"
  by (simp add: hasVerifiers_def ledger_def built_story_def plain_story_def status_bucket_def
        is_verified_def effectiveDone_def effectiveVerifying_def pr_done_def pr_verifying_def
        storyStatus_def diffStories_def oldMap_of_def del: not_None_eq)

text \<open>
  C9. Every transition carries the identifier of a story of the current ledger, so a
  story that only the baseline holds has no transition: a deletion is not reported.
\<close>

theorem diffStories_only_current:
  "(t \<in> set (diffStories baseline cur) \<longrightarrow> t_id t \<in> ids_of cur)
   \<and> (k \<in> ids_of baseline \<and> k \<notin> ids_of cur \<longrightarrow>
        (\<forall>u \<in> set (diffStories baseline cur). t_id u \<noteq> k))"
proof -
  have ids: "t_id u \<in> ids_of cur" if "u \<in> set (diffStories baseline cur)" for u
  proof (cases cur)
    case None
    with that show ?thesis by (simp add: diffStories_def)
  next
    case (Some np)
    with that show ?thesis
      using diff_loop_ids [of u "oldMap_of baseline" "userStories np"]
      by (simp add: diffStories_def ids_of_def)
  qed
  then show ?thesis by blast
qed

theorem diffStories_only_current_witness:
  "''US-1'' \<in> ids_of (Some (ledger [built_story, plain_story ''US-9'' ''Search'' False]))
   \<and> ''US-1'' \<notin> ids_of (Some (ledger [plain_story ''US-9'' ''Search'' True]))
   \<and> diffStories (Some (ledger [built_story, plain_story ''US-9'' ''Search'' False]))
        (Some (ledger [plain_story ''US-9'' ''Search'' True]))
      = [\<lparr>t_id = ''US-9'', t_title = ''Search'', t_from = ''available'', t_to = ''done''\<rparr>]
   \<and> t_id \<lparr>t_id = ''US-9'', t_title = ''Search'', t_from = ''available'', t_to = ''done''\<rparr>
        \<in> ids_of (Some (ledger [plain_story ''US-9'' ''Search'' True]))"
  using diffStories_only_current
          [of "\<lparr>t_id = ''US-9'', t_title = ''Search'', t_from = ''available'', t_to = ''done''\<rparr>"
              "Some (ledger [built_story, plain_story ''US-9'' ''Search'' False])"
              "Some (ledger [plain_story ''US-9'' ''Search'' True])" "''US-1''"]
  by (simp add: plain_story_def ledger_def built_story_def ids_of_def storyStatus_def
        diffStories_def oldMap_of_def)

section \<open>Story status in the three tools\<close>

lemma storyStatus_done_iff: "(storyStatus s = ''done'') = passes s"
  by (simp add: storyStatus_def)

lemma status_bucket_Done_iff:
  "(status_bucket hv s = Done) = (passes s \<and> (\<not> hv \<or> is_verified s))"
  by (auto simp: status_bucket_def)

text \<open>The status tool and the ledger reading tool agree on each group.\<close>

lemma effectiveDone_iff:
  "(s \<in> set (effectiveDone prd)) =
   (s \<in> set (userStories prd) \<and> status_bucket (hasVerifiers (userStories prd)) s = Done)"
  by (auto simp: effectiveDone_def pr_done_def status_bucket_Done_iff)

lemma effectiveVerifying_iff:
  "(s \<in> set (effectiveVerifying prd)) =
   (s \<in> set (userStories prd) \<and> status_bucket (hasVerifiers (userStories prd)) s = Verifying)"
  by (auto simp: effectiveVerifying_def pr_verifying_def status_bucket_def)

text \<open>
  C1. The claim: every component derives \<open>done\<close> from the completion flag and the
  ledger-wide verification toggle, the story diff included. The code at a ledger whose
  one story is built and not yet verified (\<open>passes\<close> set, \<open>verified\<close> present and
  false): the toggle is on, the status tool and the ledger reading tool put the story
  under \<open>verifying\<close> and hold no story as done, and \<open>storyStatus\<close> of the delta tool
  answers \<open>done\<close>, which is what the story diff reports.
\<close>

theorem storyStatus_ignores_verification:
  "hasVerifiers (userStories (ledger [built_story]))
   \<and> status_bucket (hasVerifiers (userStories (ledger [built_story]))) built_story = Verifying
   \<and> effectiveDone (ledger [built_story]) = []
   \<and> effectiveVerifying (ledger [built_story]) = [built_story]
   \<and> storyStatus built_story = ''done''
   \<and> diffStories (Some (ledger [plain_story ''US-1'' ''Export'' False])) (Some (ledger [built_story]))
      = [\<lparr>t_id = ''US-1'', t_title = ''Export'', t_from = ''available'', t_to = ''done''\<rparr>]"
  by (simp add: hasVerifiers_def ledger_def built_story_def plain_story_def status_bucket_def
        is_verified_def effectiveDone_def effectiveVerifying_def pr_done_def pr_verifying_def
        storyStatus_def diffStories_def oldMap_of_def del: not_None_eq)

section \<open>Adding a story\<close>

lemma apply_add_story_Inr:
  assumes "apply_action add_story story prd = Inr prd'"
  shows "\<exists>t d ac. prd' = prd\<lparr>userStories := userStories prd @ [newStory prd story t d ac]\<rparr>"
  using assms
  by (auto simp: apply_action_def split: if_splits option.splits)

text \<open>
  C10. A successful \<^verbatim>\<open>add_story\<close> appends one story, written with \<open>passes\<close> false,
  \<open>claimed_by\<close> null and a \<open>verified\<close> field that is present and false. The ledger it
  leaves therefore has the verification toggle on, and the ledger reading tool and the
  status tool hold every story of it that passes without being verified, the older ones
  without a \<open>verified\<close> field included, as verifying and not as done.
\<close>

theorem add_story_turns_verification_on:
  assumes "apply_action add_story story prd = Inr prd'"
  shows "\<exists>n. userStories prd' = userStories prd @ [n]
           \<and> id' n = a_id story \<and> passes n = False \<and> claimed_by n = Null
           \<and> verified n = Some False
           \<and> hasVerifiers (userStories prd')
           \<and> effectiveDone prd' = filter (\<lambda>s. passes s \<and> is_verified s) (userStories prd')
           \<and> (\<forall>s \<in> set (userStories prd'). passes s \<and> \<not> is_verified s \<longrightarrow>
                 s \<in> set (effectiveVerifying prd') \<and> s \<notin> set (effectiveDone prd')
                 \<and> status_bucket (hasVerifiers (userStories prd')) s = Verifying)"
proof -
  from apply_add_story_Inr [OF assms] obtain t d ac
    where eq: "prd' = prd\<lparr>userStories := userStories prd @ [newStory prd story t d ac]\<rparr>"
    by blast
  let ?n = "newStory prd story t d ac"
  have us: "userStories prd' = userStories prd @ [?n]" by (simp add: eq)
  have hv: "hasVerifiers (userStories prd')"
    by (simp add: us hasVerifiers_def newStory_def del: not_None_eq)
  have fields: "id' ?n = a_id story \<and> passes ?n = False \<and> claimed_by ?n = Null
                 \<and> verified ?n = Some False"
    by (simp add: newStory_def)
  have dn: "effectiveDone prd' = filter (\<lambda>s. passes s \<and> is_verified s) (userStories prd')"
    using hv by (simp add: effectiveDone_def pr_done_def)
  have rule: "\<forall>s \<in> set (userStories prd'). passes s \<and> \<not> is_verified s \<longrightarrow>
                 s \<in> set (effectiveVerifying prd') \<and> s \<notin> set (effectiveDone prd')
                 \<and> status_bucket (hasVerifiers (userStories prd')) s = Verifying"
    using hv by (auto simp: effectiveVerifying_def effectiveDone_def pr_verifying_def pr_done_def
                   status_bucket_def)
  from us hv fields dn rule show ?thesis by blast
qed

text \<open>
  The theorem at a ledger whose one story passes and has no \<open>verified\<close> field: done
  before the call, verifying after it.
\<close>

theorem add_story_turns_verification_on_witness:
  "apply_action add_story story_arg (ledger [plain_story ''US-1'' ''Export'' True])
     = Inr (ledger [plain_story ''US-1'' ''Export'' True,
                    newStory (ledger [plain_story ''US-1'' ''Export'' True]) story_arg
                      ''Import'' ''Read a file'' [''reads CSV'']])
   \<and> effectiveDone (ledger [plain_story ''US-1'' ''Export'' True]) = [plain_story ''US-1'' ''Export'' True]
   \<and> effectiveDone (ledger [plain_story ''US-1'' ''Export'' True,
                    newStory (ledger [plain_story ''US-1'' ''Export'' True]) story_arg
                      ''Import'' ''Read a file'' [''reads CSV'']]) = []
   \<and> effectiveVerifying (ledger [plain_story ''US-1'' ''Export'' True,
                    newStory (ledger [plain_story ''US-1'' ''Export'' True]) story_arg
                      ''Import'' ''Read a file'' [''reads CSV'']]) = [plain_story ''US-1'' ''Export'' True]"
proof -
  have a: "apply_action add_story story_arg (ledger [plain_story ''US-1'' ''Export'' True])
     = Inr (ledger [plain_story ''US-1'' ''Export'' True,
                    newStory (ledger [plain_story ''US-1'' ''Export'' True]) story_arg
                      ''Import'' ''Read a file'' [''reads CSV'']])"
    by (simp add: apply_action_def story_arg_def ledger_def plain_story_def falsy_str_def)
  have b: "effectiveDone (ledger [plain_story ''US-1'' ''Export'' True]) = [plain_story ''US-1'' ''Export'' True]"
    by (simp add: effectiveDone_def ledger_def plain_story_def hasVerifiers_def)
  from add_story_turns_verification_on [OF a] a b show ?thesis
    by (simp add: ledger_def plain_story_def newStory_def effectiveVerifying_def pr_verifying_def
          hasVerifiers_def is_verified_def)
qed

section \<open>The freshness classifier\<close>

lemma digit_not_ws: "is_digit c \<Longrightarrow> \<not> is_ws c"
  by (auto simp: is_digit_def is_ws_def)

lemma digit_not_sign: "is_digit c \<Longrightarrow> c \<noteq> CHR ''-'' \<and> c \<noteq> CHR ''+''"
  by (auto simp: is_digit_def)

lemma unit_at_units:
  "unit_at s = Some un \<Longrightarrow> un \<in> {''second'', ''minute'', ''hour'', ''day''}"
  by (auto simp: unit_at_def split: if_splits)

lemma unit_at_append:
  "un \<in> {''second'', ''minute'', ''hour'', ''day''} \<Longrightarrow> unit_at (un @ rest) = Some un"
  by (auto simp: unit_at_def startsWith_def)

lemma unit_head:
  "un \<in> {''second'', ''minute'', ''hour'', ''day''} \<Longrightarrow>
   \<exists>c cs. un = c # cs \<and> \<not> is_ws c \<and> \<not> is_digit c"
  by (auto simp: is_ws_def is_digit_def)

lemma match_here_Some:
  "match_here s = Some (d, un) \<Longrightarrow>
   d \<noteq> [] \<and> list_all is_digit d \<and> un \<in> {''second'', ''minute'', ''hour'', ''day''}"
  by (auto simp: match_here_def Let_def list_all_iff split: if_splits option.splits
           dest: unit_at_units set_takeWhileD)

lemma uptime_match_Some:
  "uptime_match u = Some (d, un) \<Longrightarrow>
   d \<noteq> [] \<and> list_all is_digit d \<and> un \<in> {''second'', ''minute'', ''hour'', ''day''}"
proof (induction u)
  case Nil
  then show ?case by simp
next
  case (Cons c cs)
  show ?case
  proof (cases "match_here (c # cs)")
    case None
    with Cons show ?thesis by simp
  next
    case (Some m)
    with Cons.prems have "match_here (c # cs) = Some (d, un)" by simp
    then show ?thesis by (rule match_here_Some)
  qed
qed

lemma match_here_pattern:
  assumes "ds \<noteq> []" and "list_all is_digit ds" and "list_all is_ws sp"
    and "un \<in> {''second'', ''minute'', ''hour'', ''day''}"
  shows "match_here (ds @ sp @ un @ rest) = Some (ds, un)"
proof -
  from unit_head [OF assms(4)] obtain c cs
    where un: "un = c # cs" and c: "\<not> is_ws c" "\<not> is_digit c" by blast
  have nd: "\<forall>x \<in> set sp. \<not> is_digit x"
    using assms(3) digit_not_ws by (auto simp: list_all_iff)
  have tw: "takeWhile is_digit (ds @ sp @ un @ rest) = ds"
  proof (cases sp)
    case Nil
    with assms(2) un c show ?thesis by (simp add: list_all_iff)
  next
    case (Cons a as)
    with nd have "\<not> is_digit a" by simp
    with assms(2) Cons show ?thesis by (simp add: list_all_iff)
  qed
  have dw: "dropWhile is_digit (ds @ sp @ un @ rest) = sp @ un @ rest"
  proof (cases sp)
    case Nil
    with assms(2) un c show ?thesis by (simp add: list_all_iff)
  next
    case (Cons a as)
    with nd have "\<not> is_digit a" by simp
    with assms(2) Cons show ?thesis by (simp add: list_all_iff)
  qed
  have dws: "dropWhile is_ws (sp @ un @ rest) = un @ rest"
    using assms(3) un c by (simp add: list_all_iff)
  show ?thesis
    using assms(1) by (simp add: match_here_def tw dw dws unit_at_append [OF assms(4)])
qed

lemma uptime_match_pattern:
  assumes "ds \<noteq> []" and "list_all is_digit ds" and "list_all is_ws sp"
    and "un \<in> {''second'', ''minute'', ''hour'', ''day''}"
  shows "uptime_match (ds @ sp @ un @ rest) = Some (ds, un)"
proof -
  from assms(1) obtain c cs where "ds = c # cs" by (cases ds) auto
  then have "uptime_match (ds @ sp @ un @ rest) =
     (case match_here (ds @ sp @ un @ rest) of Some m \<Rightarrow> Some m
      | None \<Rightarrow> uptime_match (cs @ sp @ un @ rest))" by simp
  then show ?thesis by (simp add: match_here_pattern [OF assms])
qed

lemma parseInt10_digits:
  assumes "d \<noteq> []" and "list_all is_digit d"
  shows "parseInt10 d = Some (int (dec_val d))"
proof -
  from assms obtain c cs where d: "d = c # cs" and c: "is_digit c" by (cases d) auto
  have dw: "dropWhile is_ws d = d" using d c digit_not_ws by simp
  have tw: "takeWhile is_digit d = d" using assms(2) by (simp add: list_all_iff)
  have neg: "(case d of c # _ \<Rightarrow> c = CHR ''-'' | [] \<Rightarrow> False) = False"
    using d digit_not_sign [OF c] by simp
  have u: "(case d of c # r \<Rightarrow> if c = CHR ''-'' \<or> c = CHR ''+'' then r else d | [] \<Rightarrow> []) = d"
    using d digit_not_sign [OF c] by simp
  show ?thesis
    unfolding parseInt10_def Let_def dw neg u tw using assms(1) by simp
qed

lemma likelyNew_test_eq:
  "likelyNew_test n (Some t) u =
     (case uptime_match u of
        None \<Rightarrow> False
      | Some (d, un) \<Rightarrow> int (dec_val d) * unit_ms un < n - t)"
proof (cases "uptime_match u")
  case None
  then show ?thesis by (simp add: likelyNew_test_def)
next
  case (Some m)
  obtain d un where m: "m = (d, un)" by (cases m)
  from uptime_match_Some [of u d un] Some m
  have "d \<noteq> []" "list_all is_digit d" by simp_all
  then have "parseInt10 d = Some (int (dec_val d))" by (rule parseInt10_digits)
  with Some m show ?thesis
    by (simp add: likelyNew_test_def num_mul_def num_sub_def num_lt_def)
qed


lemma likelyNew_filter_total:
  "\<forall>c \<in> set cs. running_for c \<noteq> None \<Longrightarrow>
   likelyNew_filter n st cs =
     Returned (filter (\<lambda>c. case running_for c of Some r \<Rightarrow> likelyNew_test n st r | None \<Rightarrow> False) cs)"
  by (induction cs) auto

lemma uptime_45: "uptime_match ''45 seconds'' = Some (''45'', ''second'')"
  using uptime_match_pattern [of "''45''" "'' ''" "''second''" "''s''"]
  by (simp add: is_digit_def is_ws_def)

lemma uptime_90: "uptime_match ''90 seconds'' = Some (''90'', ''second'')"
  using uptime_match_pattern [of "''90''" "'' ''" "''second''" "''s''"]
  by (simp add: is_digit_def is_ws_def)

text \<open>
  C6. The classifier flags a worker exactly when its uptime string matches the pattern
  and the number, times the unit's milliseconds (1000, 60000, 3600000, 86400000), is
  strictly less than the time elapsed since the reference instant. A string that does not
  match is never flagged; a string that starts with an integer, optional white space and
  a unit is read as that integer and unit. Over a list of workers whose uptime is a string
  the filter returns, without throwing, the workers the test accepts. With 60000 ms
  elapsed, \<open>45 seconds\<close> is flagged and \<open>90 seconds\<close> is not.
\<close>

theorem likelyNew_classifier:
  "(likelyNew_test n (Some t) u =
      (case uptime_match u of
         None \<Rightarrow> False
       | Some (d, un) \<Rightarrow> int (dec_val d) * unit_ms un < n - t))
   \<and> (uptime_match u = None \<longrightarrow> \<not> likelyNew_test n st u)
   \<and> (ds \<noteq> [] \<and> list_all is_digit ds \<and> list_all is_ws sp
        \<and> w \<in> {''second'', ''minute'', ''hour'', ''day''} \<longrightarrow>
        uptime_match (ds @ sp @ w @ rest) = Some (ds, w))
   \<and> unit_ms ''second'' = 1000 \<and> unit_ms ''minute'' = 60000
   \<and> unit_ms ''hour'' = 3600000 \<and> unit_ms ''day'' = 86400000
   \<and> ((\<forall>c \<in> set cs. running_for c \<noteq> None) \<longrightarrow>
        likelyNew_filter n st cs =
          Returned (filter (\<lambda>c. case running_for c of
                                  Some r \<Rightarrow> likelyNew_test n st r
                                | None \<Rightarrow> False) cs))
   \<and> (n - t = 60000 \<longrightarrow>
        likelyNew_test n (Some t) ''45 seconds'' \<and> \<not> likelyNew_test n (Some t) ''90 seconds'')"
proof -
  have a: "likelyNew_test n (Some t) u =
      (case uptime_match u of
         None \<Rightarrow> False
       | Some (d, un) \<Rightarrow> int (dec_val d) * unit_ms un < n - t)"
    by (rule likelyNew_test_eq)
  have b: "uptime_match u = None \<longrightarrow> \<not> likelyNew_test n st u"
    by (simp add: likelyNew_test_def)
  have c: "ds \<noteq> [] \<and> list_all is_digit ds \<and> list_all is_ws sp
        \<and> w \<in> {''second'', ''minute'', ''hour'', ''day''} \<longrightarrow>
        uptime_match (ds @ sp @ w @ rest) = Some (ds, w)"
    using uptime_match_pattern [of ds sp w rest] by blast
  have d: "unit_ms ''second'' = 1000 \<and> unit_ms ''minute'' = 60000
   \<and> unit_ms ''hour'' = 3600000 \<and> unit_ms ''day'' = 86400000"
    by (simp add: unit_ms_def)
  have e: "(\<forall>c \<in> set cs. running_for c \<noteq> None) \<longrightarrow>
        likelyNew_filter n st cs =
          Returned (filter (\<lambda>c. case running_for c of
                                  Some r \<Rightarrow> likelyNew_test n st r
                                | None \<Rightarrow> False) cs)"
    using likelyNew_filter_total [of cs n st] by blast
  have f: "n - t = 60000 \<longrightarrow>
        likelyNew_test n (Some t) ''45 seconds'' \<and> \<not> likelyNew_test n (Some t) ''90 seconds''"
    unfolding likelyNew_test_eq uptime_45 uptime_90
    by (simp add: dec_val_def digit_val_def unit_ms_def)
  from a b c d e f show ?thesis by blast
qed

text \<open>
  The theorem at a reference instant 60000 ms before now, on strings of the process
  listing and on a list of two workers.
\<close>

theorem likelyNew_classifier_witness:
  "uptime_match ''About a minute ago'' = None
   \<and> \<not> likelyNew_test 1700000060000 (Some 1700000000000) ''About a minute ago''
   \<and> uptime_match ''3 minutes ago'' = Some (''3'', ''minute'')
   \<and> \<not> likelyNew_test 1700000060000 (Some 1700000000000) ''3 minutes ago''
   \<and> likelyNew_test 1700000060000 (Some 1700000000000) ''45 seconds''
   \<and> \<not> likelyNew_test 1700000060000 (Some 1700000000000) ''90 seconds''
   \<and> likelyNew_filter 1700000060000 (Some 1700000000000)
        [\<lparr>name = ''ralph-1'', status = Some ''Up 45 seconds'', running_for = Some ''45 seconds ago''\<rparr>,
         \<lparr>name = ''ralph-2'', status = Some ''Up 2 hours'', running_for = Some ''2 hours ago''\<rparr>]
      = Returned [\<lparr>name = ''ralph-1'', status = Some ''Up 45 seconds'', running_for = Some ''45 seconds ago''\<rparr>]"
proof -
  have none: "uptime_match ''About a minute ago'' = None"
    by (simp add: match_here_def is_digit_def)
  have m3: "uptime_match ''3 minutes ago'' = Some (''3'', ''minute'')"
    using likelyNew_classifier [of _ _ _ _ "''3''" "'' ''" "''minute''" "''s ago''"]
    by (simp add: is_digit_def is_ws_def)
  have m45: "uptime_match ''45 seconds ago'' = Some (''45'', ''second'')"
    using likelyNew_classifier [of _ _ _ _ "''45''" "'' ''" "''second''" "''s ago''"]
    by (simp add: is_digit_def is_ws_def)
  have m2h: "uptime_match ''2 hours ago'' = Some (''2'', ''hour'')"
    using likelyNew_classifier [of _ _ _ _ "''2''" "'' ''" "''hour''" "''s ago''"]
    by (simp add: is_digit_def is_ws_def)
  have t3: "\<not> likelyNew_test 1700000060000 (Some 1700000000000) ''3 minutes ago''"
    using likelyNew_classifier [of 1700000060000 1700000000000 "''3 minutes ago''"] m3
    by (simp add: dec_val_def digit_val_def)
  have t45: "likelyNew_test 1700000060000 (Some 1700000000000) ''45 seconds ago''"
    using likelyNew_classifier [of 1700000060000 1700000000000 "''45 seconds ago''"] m45
    by (simp add: dec_val_def digit_val_def)
  have t2h: "\<not> likelyNew_test 1700000060000 (Some 1700000000000) ''2 hours ago''"
    using likelyNew_classifier [of 1700000060000 1700000000000 "''2 hours ago''"] m2h
    by (simp add: dec_val_def digit_val_def)
  have w: "likelyNew_test 1700000060000 (Some 1700000000000) ''45 seconds''
           \<and> \<not> likelyNew_test 1700000060000 (Some 1700000000000) ''90 seconds''"
  proof -
    have "(1700000060000::int) - 1700000000000 = 60000" by simp
    with likelyNew_classifier [of 1700000060000 1700000000000 "[]" None "[]" "[]" "[]" "[]" "[]"]
    show ?thesis by blast
  qed
  have nn: "\<not> likelyNew_test 1700000060000 (Some 1700000000000) ''About a minute ago''"
    using likelyNew_classifier [of _ _ "''About a minute ago''" "Some 1700000000000"] none by blast
  have fl: "likelyNew_filter 1700000060000 (Some 1700000000000)
        [\<lparr>name = ''ralph-1'', status = Some ''Up 45 seconds'', running_for = Some ''45 seconds ago''\<rparr>,
         \<lparr>name = ''ralph-2'', status = Some ''Up 2 hours'', running_for = Some ''2 hours ago''\<rparr>]
      = Returned [\<lparr>name = ''ralph-1'', status = Some ''Up 45 seconds'', running_for = Some ''45 seconds ago''\<rparr>]"
    using t45 t2h by simp
  from none nn m3 t3 w fl show ?thesis by blast
qed

section \<open>Trimming and splitting the output of a process\<close>

lemma trim_empty_iff: "(trim s = []) = list_all is_ws s"
proof -
  have "(dropWhile is_ws (rev (dropWhile is_ws s)) = []) = (dropWhile is_ws s = [])"
  proof (cases "dropWhile is_ws s")
    case Nil
    show ?thesis unfolding Nil by simp
  next
    case (Cons a as)
    then have "\<not> is_ws a" using hd_dropWhile [of is_ws s] by simp
    with Cons show ?thesis by (simp add: dropWhile_append)
  qed
  then show ?thesis by (simp add: trim_def list_all_iff)
qed

lemma trim_line:
  assumes "h \<noteq> []" and "\<not> is_ws (hd h)" and "\<not> is_ws (last h)" and "list_all is_ws w"
  shows "trim (h @ w) = h"
proof -
  from assms(1) obtain c cs where h: "h = c # cs" by (cases h) auto
  with assms(2) have a: "dropWhile is_ws (h @ w) = h @ w" by simp
  from assms(1) obtain y ys where rh: "rev h = y # ys" by (cases "rev h") auto
  then have "last h = y" using assms(1) by (metis list.sel(1) hd_rev)
  with assms(3) rh have b: "dropWhile is_ws (rev h) = rev h" by simp
  have "dropWhile is_ws (rev w @ rev h) = dropWhile is_ws (rev h)"
    using assms(4) by (simp add: list_all_iff dropWhile_append)
  with a b show ?thesis by (simp add: trim_def)
qed

lemma split_on_append:
  "d \<notin> set h \<Longrightarrow> split_on d (h @ d # rest) = h # split_on d rest"
  by (induction h) auto

lemma split_on_no_sep: "d \<notin> set h \<Longrightarrow> split_on d h = [h]"
  by (induction h) auto

lemma first_line:
  assumes "h \<noteq> []" and "\<forall>c \<in> set h. \<not> is_ws c"
  shows "first_piece (split_on (CHR 0x0A) (trim (h @ CHR 0x0A # rest))) = h"
proof -
  have nl: "is_ws (CHR 0x0A)" by (simp add: is_ws_def)
  with assms(2) have nin: "CHR 0x0A \<notin> set h" by blast
  from assms(1) obtain c cs where h: "h = c # cs" by (cases h) auto
  with assms(2) have a: "dropWhile is_ws (h @ CHR 0x0A # rest) = h @ CHR 0x0A # rest" by simp
  from assms(1) obtain y ys where rh: "rev h = y # ys" by (cases "rev h") auto
  then have "y \<in> set h" by (metis list.set_intros(1) set_rev)
  with assms(2) rh have b: "dropWhile is_ws (rev h) = rev h" by simp
  show ?thesis
  proof (cases "\<forall>x \<in> set rest. is_ws x")
    case True
    then have "dropWhile is_ws (rev rest @ CHR 0x0A # rev h) = rev h"
      using nl b by (simp add: dropWhile_append)
    then have "trim (h @ CHR 0x0A # rest) = h" using a by (simp add: trim_def)
    then show ?thesis using nin by (simp add: split_on_no_sep first_piece_def)
  next
    case False
    then have "dropWhile is_ws (rev rest @ CHR 0x0A # rev h)
                 = dropWhile is_ws (rev rest) @ CHR 0x0A # rev h"
      by (auto simp: dropWhile_append)
    then have "trim (h @ CHR 0x0A # rest) = h @ CHR 0x0A # rev (dropWhile is_ws (rev rest))"
      using a by (simp add: trim_def)
    then show ?thesis using nin by (simp add: split_on_append first_piece_def)
  qed
qed

section \<open>Reference resolution\<close>

text \<open>
  C3, as the claim states it: \<^verbatim>\<open>resolveLatestPrdRef\<close> never throws. Where the process
  cannot be started the call of \<open>exec\<close> throws and the function, which has no handler,
  throws with it.
\<close>

theorem resolveLatestPrdRef_throws:
  "resolveLatestPrdRef no_process ''/p/.ralph/repo.git'' = Threw"
  by (simp add: resolveLatestPrdRef_def no_process_def)

text \<open>
  C3, amended. \<^verbatim>\<open>resolveLatestPrdRef\<close> throws exactly when the lookup process cannot be
  started. When the process ran: if it succeeded and printed a hash (possibly followed by
  white space) the hash is returned, trimmed; if it failed or printed only white space,
  \<^verbatim>\<open>HEAD\<close> is returned. The hash is the one
  \<^verbatim>\<open>git log --all -1 --format=%H -- prd.json\<close> prints: the newest commit on any ref
  that touched the ledger.
\<close>

theorem resolveLatestPrdRef_result:
  "(resolveLatestPrdRef rt bareRepo = Threw) =
     (exec rt [''git'', ''log'', ''--all'', ''-1'', ''--format=%H'', ''--'', ''prd.json'']
        (Some bareRepo) = Threw)
   \<and> (exec rt [''git'', ''log'', ''--all'', ''-1'', ''--format=%H'', ''--'', ''prd.json'']
        (Some bareRepo) = Returned r \<longrightarrow>
        (success r \<and> stdout r = h @ w \<and> h \<noteq> [] \<and> \<not> is_ws (hd h) \<and> \<not> is_ws (last h)
           \<and> list_all is_ws w \<longrightarrow>
           resolveLatestPrdRef rt bareRepo = Returned h)
        \<and> (\<not> success r \<or> list_all is_ws (stdout r) \<longrightarrow>
           resolveLatestPrdRef rt bareRepo = Returned ''HEAD''))"
  by (auto simp: resolveLatestPrdRef_def trim_empty_iff trim_line split: outcome.splits)

lemma project_ref: "resolveLatestPrdRef project_runtime ''/p/.ralph/repo.git'' = Returned ''b2b2b2b''"
  by (simp add: resolveLatestPrdRef_def project_runtime_def git_ok_def trim_def is_ws_def)

theorem resolveLatestPrdRef_result_witness:
  "resolveLatestPrdRef project_runtime ''/p/.ralph/repo.git'' = Returned ''b2b2b2b''
   \<and> resolveLatestPrdRef (git_runtime side_repo) ''/p/.ralph/repo.git'' = Returned ''HEAD''
   \<and> (resolveLatestPrdRef no_process ''/p/.ralph/repo.git'' = Threw)"
proof -
  have 1: "resolveLatestPrdRef project_runtime ''/p/.ralph/repo.git'' = Returned ''b2b2b2b''"
    using resolveLatestPrdRef_result [of project_runtime "''/p/.ralph/repo.git''"
            "git_ok (''b2b2b2b'' @ [CHR 0x0A])" "''b2b2b2b''" "[CHR 0x0A]"]
    by (simp add: project_runtime_def git_ok_def is_ws_def)
  have 2: "resolveLatestPrdRef (git_runtime side_repo) ''/p/.ralph/repo.git'' = Returned ''HEAD''"
    using resolveLatestPrdRef_result [of "git_runtime side_repo" "''/p/.ralph/repo.git''" git_fail]
    by (simp add: git_runtime_def git_exec_def git_fail_def)
  have 3: "resolveLatestPrdRef no_process ''/p/.ralph/repo.git'' = Threw"
    using resolveLatestPrdRef_result [of no_process "''/p/.ralph/repo.git''"]
    by (simp add: no_process_def)
  from 1 2 3 show ?thesis by blast
qed

section \<open>The ledger readers\<close>

lemma null_ledger_ref:
  "resolveLatestPrdRef null_ledger_runtime ''/p/.ralph/repo.git'' = Returned ''b2b2b2b''"
  by (simp add: resolveLatestPrdRef_def null_ledger_runtime_def git_ok_def trim_def is_ws_def)

text \<open>
  C4, as the claim states it: whenever the first attempt fails, malformed content
  included, the ledger reader falls back to the copy in the working directory. The code
  at two inputs. \<^verbatim>\<open>readPrdAtCommit\<close>, the reader of the delta tool, has one attempt only:
  in the example project the ledger is not at \<^verbatim>\<open>HEAD\<close>, the copy in the working
  directory can be read, and the reader answers \<^verbatim>\<open>null\<close>. \<^verbatim>\<open>readPrd\<close> returns what
  \<^verbatim>\<open>JSON.parse\<close> gives without a check: where the ledger at the resolved ref is the
  document \<^verbatim>\<open>null\<close>, which is no ledger, it answers \<^verbatim>\<open>null\<close> although the copy in
  the working directory can be read.
\<close>

theorem readPrdAtCommit_no_fallback:
  "readPrdAtCommit project_runtime ''/p/.ralph/repo.git'' ''HEAD'' = None
   \<and> readPrd_workdir project_runtime ''/p'' = Some (ledger [])
   \<and> readPrd null_ledger_runtime ''/p'' = None
   \<and> readPrd_workdir null_ledger_runtime ''/p'' = Some (ledger [])"
proof -
  have 1: "readPrdAtCommit project_runtime ''/p/.ralph/repo.git'' ''HEAD'' = None"
    by (simp add: readPrdAtCommit_def project_runtime_def git_fail_def)
  have 2: "readPrd_workdir project_runtime ''/p'' = Some (ledger [])"
    by (simp add: readPrd_workdir_def project_runtime_def)
  have 3: "readPrd null_ledger_runtime ''/p'' = None"
    by code_simp
  have 4: "readPrd_workdir null_ledger_runtime ''/p'' = Some (ledger [])"
    by (simp add: readPrd_workdir_def null_ledger_runtime_def project_runtime_def)
  from 1 2 3 4 show ?thesis by blast
qed

text \<open>
  C4, amended. \<^verbatim>\<open>readPrd\<close> (and the same text in the status tool) attempts the ledger at
  the resolved ref first: when the repository is there, the resolution and \<^verbatim>\<open>git show\<close>
  succeed and the content is JSON, it returns the parsed value as it is, without a check
  of its shape (so \<^verbatim>\<open>null\<close> for the document \<^verbatim>\<open>null\<close>), and the copy in the working
  directory is not consulted. When the repository is absent, the resolution throws,
  \<^verbatim>\<open>git show\<close> throws or fails, or the content is not JSON, it returns what the second
  attempt gives: the parsed file \<^verbatim>\<open>prd.json\<close> of the project directory, or \<^verbatim>\<open>null\<close>
  when that file cannot be read or is not JSON. \<^verbatim>\<open>readPrdAtCommit\<close> returns the parsed
  ledger at the given commit, or \<^verbatim>\<open>null\<close> when its one attempt fails; it has no second
  attempt. Neither throws: both are functions into \<open>PRD option\<close>.
\<close>

theorem ledger_readers:
  "(stat rt (d @ ''/.ralph/repo.git'') = Returned st
      \<and> resolveLatestPrdRef rt (d @ ''/.ralph/repo.git'') = Returned ref
      \<and> exec rt [''git'', ''show'', ref @ '':prd.json''] (Some (d @ ''/.ralph/repo.git'')) = Returned r
      \<and> success r \<and> JSON_parse rt (stdout r) = Returned v
      \<longrightarrow> readPrd rt d = v)
   \<and> (stat rt (d @ ''/.ralph/repo.git'') = Threw
        \<or> resolveLatestPrdRef rt (d @ ''/.ralph/repo.git'') = Threw
        \<or> resolveLatestPrdRef rt (d @ ''/.ralph/repo.git'') = Returned ref
           \<and> (exec rt [''git'', ''show'', ref @ '':prd.json''] (Some (d @ ''/.ralph/repo.git'')) = Threw
               \<or> exec rt [''git'', ''show'', ref @ '':prd.json''] (Some (d @ ''/.ralph/repo.git'')) = Returned r
                  \<and> (\<not> success r \<or> JSON_parse rt (stdout r) = Threw))
      \<longrightarrow> readPrd rt d = readPrd_workdir rt d)
   \<and> (readTextFile rt (d @ ''/prd.json'') = Returned doc \<and> JSON_parse rt doc = Returned q
      \<longrightarrow> readPrd_workdir rt d = q)
   \<and> (readTextFile rt (d @ ''/prd.json'') = Threw
        \<or> readTextFile rt (d @ ''/prd.json'') = Returned doc \<and> JSON_parse rt doc = Threw
      \<longrightarrow> readPrd_workdir rt d = None)
   \<and> (exec rt [''git'', ''show'', c @ '':prd.json''] (Some b) = Returned r'
        \<and> success r' \<and> JSON_parse rt (stdout r') = Returned v'
      \<longrightarrow> readPrdAtCommit rt b c = v')
   \<and> (exec rt [''git'', ''show'', c @ '':prd.json''] (Some b) = Threw
        \<or> exec rt [''git'', ''show'', c @ '':prd.json''] (Some b) = Returned r'
           \<and> (\<not> success r' \<or> JSON_parse rt (stdout r') = Threw)
      \<longrightarrow> readPrdAtCommit rt b c = None)"
proof -
  have a: "stat rt (d @ ''/.ralph/repo.git'') = Returned st
      \<and> resolveLatestPrdRef rt (d @ ''/.ralph/repo.git'') = Returned ref
      \<and> exec rt [''git'', ''show'', ref @ '':prd.json''] (Some (d @ ''/.ralph/repo.git'')) = Returned r
      \<and> success r \<and> JSON_parse rt (stdout r) = Returned v
      \<longrightarrow> readPrd rt d = v"
    by (simp add: readPrd_def readPrd_bare_def Let_def)
  have b: "stat rt (d @ ''/.ralph/repo.git'') = Threw
        \<or> resolveLatestPrdRef rt (d @ ''/.ralph/repo.git'') = Threw
        \<or> resolveLatestPrdRef rt (d @ ''/.ralph/repo.git'') = Returned ref
           \<and> (exec rt [''git'', ''show'', ref @ '':prd.json''] (Some (d @ ''/.ralph/repo.git'')) = Threw
               \<or> exec rt [''git'', ''show'', ref @ '':prd.json''] (Some (d @ ''/.ralph/repo.git'')) = Returned r
                  \<and> (\<not> success r \<or> JSON_parse rt (stdout r) = Threw))
      \<longrightarrow> readPrd rt d = readPrd_workdir rt d"
    by (auto simp: readPrd_def readPrd_bare_def Let_def split: outcome.splits)
  have c: "readTextFile rt (d @ ''/prd.json'') = Returned doc \<and> JSON_parse rt doc = Returned q
      \<longrightarrow> readPrd_workdir rt d = q"
    by (simp add: readPrd_workdir_def)
  have e: "readTextFile rt (d @ ''/prd.json'') = Threw
        \<or> readTextFile rt (d @ ''/prd.json'') = Returned doc \<and> JSON_parse rt doc = Threw
      \<longrightarrow> readPrd_workdir rt d = None"
    by (auto simp: readPrd_workdir_def)
  have f: "exec rt [''git'', ''show'', c @ '':prd.json''] (Some b) = Returned r'
        \<and> success r' \<and> JSON_parse rt (stdout r') = Returned v'
      \<longrightarrow> readPrdAtCommit rt b c = v'"
    by (simp add: readPrdAtCommit_def)
  have g: "exec rt [''git'', ''show'', c @ '':prd.json''] (Some b) = Threw
        \<or> exec rt [''git'', ''show'', c @ '':prd.json''] (Some b) = Returned r'
           \<and> (\<not> success r' \<or> JSON_parse rt (stdout r') = Threw)
      \<longrightarrow> readPrdAtCommit rt b c = None"
    by (auto simp: readPrdAtCommit_def)
  from a b c e f g show ?thesis by blast
qed

text \<open>
  The theorem at the example project, at the project whose newest ledger is the document
  \<^verbatim>\<open>null\<close>, and at a machine without repository and files.
\<close>

theorem ledger_readers_witness:
  "readPrd project_runtime ''/p'' = Some (ledger [built_story])
   \<and> readPrd null_ledger_runtime ''/p'' = None
   \<and> readPrd no_process ''/p'' = readPrd_workdir no_process ''/p''
   \<and> readPrd_workdir no_process ''/p'' = None
   \<and> readPrd_workdir project_runtime ''/p'' = Some (ledger [])
   \<and> readPrdAtCommit project_runtime ''/p/.ralph/repo.git'' ''b2b2b2b'' = Some (ledger [built_story])
   \<and> readPrdAtCommit project_runtime ''/p/.ralph/repo.git'' ''HEAD'' = None"
proof -
  have 1: "readPrd project_runtime ''/p'' = Some (ledger [built_story])"
    using ledger_readers [where rt = project_runtime and d = "''/p''"
            and st = "\<lparr>stat_mtime = Some 5\<rparr>" and ref = "''b2b2b2b''"
            and r = "git_ok ''{new}''" and v = "Some (ledger [built_story])"] project_ref
    by (simp add: project_runtime_def git_ok_def)
  have 7: "readPrd null_ledger_runtime ''/p'' = None"
    using ledger_readers [where rt = null_ledger_runtime and d = "''/p''"
            and st = "\<lparr>stat_mtime = Some 5\<rparr>" and ref = "''b2b2b2b''"
            and r = "git_ok ''null''" and v = None] null_ledger_ref
    by (simp add: null_ledger_runtime_def project_runtime_def git_ok_def)
  have 2: "readPrd no_process ''/p'' = readPrd_workdir no_process ''/p''"
    using ledger_readers [where rt = no_process and d = "''/p''"] by (simp add: no_process_def)
  have 3: "readPrd_workdir no_process ''/p'' = None"
    using ledger_readers [where rt = no_process and d = "''/p''"] by (simp add: no_process_def)
  have 4: "readPrd_workdir project_runtime ''/p'' = Some (ledger [])"
    using ledger_readers [where rt = project_runtime and d = "''/p''" and doc = "''{old}''"
            and q = "Some (ledger [])"]
    by (simp add: project_runtime_def)
  have 5: "readPrdAtCommit project_runtime ''/p/.ralph/repo.git'' ''b2b2b2b'' = Some (ledger [built_story])"
    using ledger_readers [where rt = project_runtime and c = "''b2b2b2b''"
            and b = "''/p/.ralph/repo.git''" and r' = "git_ok ''{new}''"
            and v' = "Some (ledger [built_story])"]
    by (simp add: project_runtime_def git_ok_def)
  have 6: "readPrdAtCommit project_runtime ''/p/.ralph/repo.git'' ''HEAD'' = None"
    using ledger_readers [where rt = project_runtime and c = "''HEAD''"
            and b = "''/p/.ralph/repo.git''" and r' = git_fail]
    by (simp add: project_runtime_def git_fail_def)
  from 1 7 2 3 4 5 6 show ?thesis by blast
qed

section \<open>The fallbacks of the delta tool\<close>

lemma changes_handler_Returned:
  assumes "changes_handler rt d a = Returned res"
  shows "\<exists>ts. resolve_sinceCommit rt (d @ ''/.ralph/repo.git'') a = Returned (since_commit res)
     \<and> resolve_latestCommit rt (d @ ''/.ralph/repo.git'') = Returned (latest_commit res)
     \<and> resolve_sinceTimestamp rt (d @ ''/.ralph/repo.git'') (since_commit res) = Returned ts
     \<and> new_commits res =
         parse_commits (catch_exec (exec rt
           [''git'', ''log'', ''--oneline'', since_commit res @ ''..HEAD'', ''--all'']
           (Some (d @ ''/.ralph/repo.git''))))
     \<and> story_transitions res =
         diffStories (readPrdAtCommit rt (d @ ''/.ralph/repo.git'') (since_commit res))
                     (readPrdAtCommit rt (d @ ''/.ralph/repo.git'') ''HEAD'')
     \<and> scanNewLogs rt (d @ ''/agent_logs'') ts = Returned (new_log_entries res)"
  using assms
  by (auto simp: changes_handler_def Let_def split: outcome.splits)

lemma changes_handler_Threw_iff:
  "(changes_handler rt d a = Threw) =
   (resolve_sinceCommit rt (d @ ''/.ralph/repo.git'') a = Threw
    \<or> resolve_latestCommit rt (d @ ''/.ralph/repo.git'') = Threw
    \<or> (\<exists>sc. resolve_sinceCommit rt (d @ ''/.ralph/repo.git'') a = Returned sc
          \<and> (resolve_sinceTimestamp rt (d @ ''/.ralph/repo.git'') sc = Threw
              \<or> (\<exists>ts. resolve_sinceTimestamp rt (d @ ''/.ralph/repo.git'') sc = Returned ts
                    \<and> (scanNewLogs rt (d @ ''/agent_logs'') ts = Threw
                        \<or> likelyNew_filter (now rt) ts
                             (parse_containers (catch_exec (exec rt
                                [''docker'', ''ps'', ''--filter'', ''name=ralph-'', ''--format'',
                                 ''{{.Names}}'' @ [CHR 0x09] @ ''{{.Status}}'' @ [CHR 0x09]
                                   @ ''{{.RunningFor}}''] None))) = Threw)))))"
  by (auto simp: changes_handler_def Let_def split: outcome.splits)

lemma parse_commits_failed:
  "x = Threw \<or> x = Returned r \<and> \<not> success r \<Longrightarrow> parse_commits (catch_exec x) = []"
  by (auto simp: parse_commits_def catch_exec_def)

lemma resolve_sinceCommit_root:
  assumes "a = None \<or> a = Some []"
    and "exec rt [''git'', ''rev-list'', ''--max-parents=0'', ''HEAD''] (Some b) = Returned r"
    and "success r" and "stdout r = h @ CHR 0x0A # rest"
    and "h \<noteq> []" and "\<forall>c \<in> set h. \<not> is_ws c"
  shows "resolve_sinceCommit rt b a = Returned h"
  using assms first_line [of h rest]
  by (auto simp: resolve_sinceCommit_def)

lemma git_root_output:
  assumes "head g = Some k"
    and "filter (\<lambda>c. c_parents c = [] \<and> c_hash c \<in> set (reachable g [k])) (objects g) = c # cs"
  shows "\<exists>rest. git_exec g [''git'', ''rev-list'', ''--max-parents=0'', ''HEAD''] cwd
           = Returned (git_ok (c_hash c @ CHR 0x0A # rest))"
  using assms by (auto simp: git_exec_def unlines_def)

text \<open>
  C8. A \<^verbatim>\<open>since_commit\<close> that is absent is resolved to the first line the root lookup
  prints; on a repository that is the hash of the first commit without parents that is
  reachable from \<^verbatim>\<open>HEAD\<close>. When the timestamp lookup fails the timestamp is \<open>0\<close>, and
  the log scan runs with \<open>0\<close>. When the listing of the commit range throws or fails,
  \<^verbatim>\<open>new_commits\<close> is empty. By \<open>changes_handler_Threw_iff\<close> the listing never makes
  the tool throw.
\<close>

theorem changes_fallbacks:
  "((a = None \<or> a = Some [])
      \<and> exec rt [''git'', ''rev-list'', ''--max-parents=0'', ''HEAD''] (Some (d @ ''/.ralph/repo.git''))
          = Returned r
      \<and> success r \<and> stdout r = h @ CHR 0x0A # rest \<and> h \<noteq> [] \<and> (\<forall>c \<in> set h. \<not> is_ws c)
      \<and> changes_handler rt d a = Returned res
    \<longrightarrow> since_commit res = h)
   \<and> ((a = None \<or> a = Some []) \<and> head g = Some k
      \<and> filter (\<lambda>c. c_parents c = [] \<and> c_hash c \<in> set (reachable g [k])) (objects g) = root # roots
      \<and> c_hash root \<noteq> [] \<and> (\<forall>c \<in> set (c_hash root). \<not> is_ws c)
      \<and> changes_handler (git_runtime g) d a = Returned res'
    \<longrightarrow> since_commit res' = c_hash root \<and> c_parents root = [] \<and> root \<in> set (objects g))
   \<and> (exec rt [''git'', ''show'', ''-s'', ''--format=%ct'', sc] (Some b) = Returned r' \<and> \<not> success r'
    \<longrightarrow> resolve_sinceTimestamp rt b sc = Returned (Some 0))
   \<and> (exec rt [''git'', ''show'', ''-s'', ''--format=%ct'', since_commit res]
          (Some (d @ ''/.ralph/repo.git'')) = Returned r' \<and> \<not> success r'
      \<and> changes_handler rt d a = Returned res
    \<longrightarrow> scanNewLogs rt (d @ ''/agent_logs'') (Some 0) = Returned (new_log_entries res))
   \<and> ((exec rt [''git'', ''log'', ''--oneline'', since_commit res @ ''..HEAD'', ''--all'']
           (Some (d @ ''/.ralph/repo.git'')) = Threw
        \<or> exec rt [''git'', ''log'', ''--oneline'', since_commit res @ ''..HEAD'', ''--all'']
           (Some (d @ ''/.ralph/repo.git'')) = Returned r'' \<and> \<not> success r'')
      \<and> changes_handler rt d a = Returned res
    \<longrightarrow> new_commits res = [])"
proof -
  have p1: "(a = None \<or> a = Some [])
      \<and> exec rt [''git'', ''rev-list'', ''--max-parents=0'', ''HEAD''] (Some (d @ ''/.ralph/repo.git''))
          = Returned r
      \<and> success r \<and> stdout r = h @ CHR 0x0A # rest \<and> h \<noteq> [] \<and> (\<forall>c \<in> set h. \<not> is_ws c)
      \<and> changes_handler rt d a = Returned res
    \<longrightarrow> since_commit res = h"
    using changes_handler_Returned [of rt d a res]
      resolve_sinceCommit_root [of a rt "d @ ''/.ralph/repo.git''" r h rest]
    by auto
  have p2: "(a = None \<or> a = Some []) \<and> head g = Some k
      \<and> filter (\<lambda>c. c_parents c = [] \<and> c_hash c \<in> set (reachable g [k])) (objects g) = root # roots
      \<and> c_hash root \<noteq> [] \<and> (\<forall>c \<in> set (c_hash root). \<not> is_ws c)
      \<and> changes_handler (git_runtime g) d a = Returned res'
    \<longrightarrow> since_commit res' = c_hash root \<and> c_parents root = [] \<and> root \<in> set (objects g)"
  proof (intro impI, elim conjE)
    assume a: "a = None \<or> a = Some []" and hd: "head g = Some k"
      and fl: "filter (\<lambda>c. c_parents c = [] \<and> c_hash c \<in> set (reachable g [k])) (objects g) = root # roots"
      and ne: "c_hash root \<noteq> []" and ws: "\<forall>c \<in> set (c_hash root). \<not> is_ws c"
      and ret: "changes_handler (git_runtime g) d a = Returned res'"
    from git_root_output [OF hd fl] obtain rest'
      where out: "git_exec g [''git'', ''rev-list'', ''--max-parents=0'', ''HEAD'']
                    (Some (d @ ''/.ralph/repo.git''))
                  = Returned (git_ok (c_hash root @ CHR 0x0A # rest'))" by blast
    have "resolve_sinceCommit (git_runtime g) (d @ ''/.ralph/repo.git'') a = Returned (c_hash root)"
      using resolve_sinceCommit_root [of a "git_runtime g" "d @ ''/.ralph/repo.git''"
              "git_ok (c_hash root @ CHR 0x0A # rest')" "c_hash root" rest'] a out ne ws
      by (simp add: git_runtime_def git_ok_def)
    with changes_handler_Returned [OF ret] have s: "since_commit res' = c_hash root" by auto
    have "root \<in> set (filter (\<lambda>c. c_parents c = [] \<and> c_hash c \<in> set (reachable g [k])) (objects g))"
      by (simp add: fl)
    then have "c_parents root = [] \<and> root \<in> set (objects g)" by simp
    with s show "since_commit res' = c_hash root \<and> c_parents root = [] \<and> root \<in> set (objects g)"
      by simp
  qed
  have p3: "exec rt [''git'', ''show'', ''-s'', ''--format=%ct'', sc] (Some b) = Returned r' \<and> \<not> success r'
    \<longrightarrow> resolve_sinceTimestamp rt b sc = Returned (Some 0)"
    by (simp add: resolve_sinceTimestamp_def)
  have p4: "exec rt [''git'', ''show'', ''-s'', ''--format=%ct'', since_commit res]
          (Some (d @ ''/.ralph/repo.git'')) = Returned r' \<and> \<not> success r'
      \<and> changes_handler rt d a = Returned res
    \<longrightarrow> scanNewLogs rt (d @ ''/agent_logs'') (Some 0) = Returned (new_log_entries res)"
    using changes_handler_Returned [of rt d a res]
    by (auto simp: resolve_sinceTimestamp_def)
  have p5: "(exec rt [''git'', ''log'', ''--oneline'', since_commit res @ ''..HEAD'', ''--all'']
           (Some (d @ ''/.ralph/repo.git'')) = Threw
        \<or> exec rt [''git'', ''log'', ''--oneline'', since_commit res @ ''..HEAD'', ''--all'']
           (Some (d @ ''/.ralph/repo.git'')) = Returned r'' \<and> \<not> success r'')
      \<and> changes_handler rt d a = Returned res
    \<longrightarrow> new_commits res = []"
    using changes_handler_Returned [of rt d a res]
      parse_commits_failed [of "exec rt [''git'', ''log'', ''--oneline'', since_commit res @ ''..HEAD'', ''--all'']
           (Some (d @ ''/.ralph/repo.git''))" r'']
    by auto
  from p1 p2 p3 p4 p5 show ?thesis by blast
qed


theorem changes_fallbacks_witness:
  "changes_handler (git_runtime side_repo) ''/p'' None = Returned poll_result
   \<and> since_commit poll_result = ''a1a1a1a''
   \<and> resolve_sinceTimestamp (git_runtime side_repo) ''/p/.ralph/repo.git'' ''deadbee''
       = Returned (Some 0)
   \<and> changes_handler (git_runtime side_repo) ''/p'' (Some ''deadbee'')
       = Returned (poll_result\<lparr>since_commit := ''deadbee'', new_commits := []\<rparr>)
   \<and> scanNewLogs (git_runtime side_repo) ''/p/agent_logs'' (Some 0)
       = Returned \<lparr>new_count = 0, recent_summaries = []\<rparr>"
proof -
  let ?rt = "git_runtime side_repo"
  let ?bad = "poll_result\<lparr>since_commit := ''deadbee'', new_commits := []\<rparr>"
  have e1: "changes_handler ?rt ''/p'' None = Returned poll_result"
    by code_simp
  have e2: "changes_handler ?rt ''/p'' (Some ''deadbee'') = Returned ?bad"
    by code_simp
  have x1: "exec ?rt [''git'', ''rev-list'', ''--max-parents=0'', ''HEAD''] (Some (''/p'' @ ''/.ralph/repo.git''))
              = Returned (git_ok (''a1a1a1a'' @ CHR 0x0A # []))"
    by code_simp
  have x2: "exec ?rt [''git'', ''show'', ''-s'', ''--format=%ct'', ''deadbee''] (Some ''/p/.ralph/repo.git'')
              = Returned git_fail"
    by code_simp
  have x3: "exec ?rt [''git'', ''log'', ''--oneline'', since_commit ?bad @ ''..HEAD'', ''--all'']
              (Some (''/p'' @ ''/.ralph/repo.git'')) = Returned git_fail"
    by code_simp
  have x4: "exec ?rt [''git'', ''show'', ''-s'', ''--format=%ct'', since_commit ?bad]
              (Some (''/p'' @ ''/.ralph/repo.git'')) = Returned git_fail"
    by code_simp
  have ws: "\<forall>c \<in> set ''a1a1a1a''. \<not> is_ws c" by (simp add: is_ws_def)
  have w1: "since_commit poll_result = ''a1a1a1a''"
    using changes_fallbacks [where a = None and rt = ?rt and d = "''/p''"
            and r = "git_ok (''a1a1a1a'' @ CHR 0x0A # [])" and h = "''a1a1a1a''" and rest = "[]"
            and res = poll_result] e1 x1 ws
    by (simp add: git_ok_def)
  have w3: "resolve_sinceTimestamp ?rt ''/p/.ralph/repo.git'' ''deadbee'' = Returned (Some 0)"
    using changes_fallbacks [where rt = ?rt and sc = "''deadbee''" and b = "''/p/.ralph/repo.git''"
            and r' = git_fail] x2
    by (simp add: git_fail_def)
  have w4: "scanNewLogs ?rt (''/p'' @ ''/agent_logs'') (Some 0) = Returned (new_log_entries ?bad)"
    using changes_fallbacks [where rt = ?rt and d = "''/p''" and a = "Some ''deadbee''"
            and res = ?bad and r' = git_fail] x4 e2
    by (simp add: git_fail_def)
  have w5: "new_commits ?bad = []"
    using changes_fallbacks [where rt = ?rt and d = "''/p''" and a = "Some ''deadbee''"
            and res = ?bad and r'' = git_fail] x3 e2
    by (simp add: git_fail_def)
  from e1 w1 w3 e2 w4 show ?thesis by (simp add: poll_result_def)
qed

section \<open>Polling\<close>

text \<open>
  C2. The claim: when each call passes the previous \<^verbatim>\<open>latest_commit\<close> as
  \<^verbatim>\<open>since_commit\<close>, no commit is reported by two consecutive calls, and nothing is
  reported when the repository has not changed. The code on the example repository:
  \<^verbatim>\<open>latest_commit\<close> is \<^verbatim>\<open>HEAD\<close>, which the worker's push does not move, and the
  listing takes every ref (\<^verbatim>\<open>--all\<close>), so the second call, on the unchanged repository,
  reports the worker's commit again.
\<close>

theorem changes_repeats_side_branch:
  "changes_handler (git_runtime side_repo) ''/p'' None = Returned poll_result
   \<and> changes_handler (git_runtime side_repo) ''/p'' (Some (latest_commit poll_result))
       = Returned poll_result
   \<and> new_commits poll_result = [\<lparr>hash = ''b2b2b2b'', message = ''US-1 done''\<rparr>]"
  by code_simp

section \<open>The log scanner\<close>

lemma scan_loop_Cons:
  "scan_loop rt logsDir sinceTimestamp (e # es) =
     (if is_log e
      then (case stat rt (logsDir @ ''/'' @ entry_name e) of
              Threw \<Rightarrow> Threw
            | Returned st \<Rightarrow>
                (case scan_loop rt logsDir sinceTimestamp es of
                   Threw \<Rightarrow> Threw
                 | Returned fs \<Rightarrow>
                     Returned (if num_gt (Some (case stat_mtime st of Some m \<Rightarrow> m | None \<Rightarrow> 0))
                                    sinceTimestamp
                               then \<lparr>nf_name = entry_name e,
                                     nf_mtime = (case stat_mtime st of Some m \<Rightarrow> m | None \<Rightarrow> 0)\<rparr> # fs
                               else fs)))
      else scan_loop rt logsDir sinceTimestamp es)"
  by (simp add: is_log_def Let_def split: outcome.splits)

lemma scan_loop_Returned:
  "\<forall>e \<in> set es. is_log e \<longrightarrow> stat rt (logsDir @ ''/'' @ entry_name e) \<noteq> Threw \<Longrightarrow>
   scan_loop rt logsDir (Some t) es = Returned (qualifying rt logsDir t es)"
proof (induction es)
  case Nil
  then show ?case by (simp add: qualifying_def)
next
  case (Cons e es)
  then have ih: "scan_loop rt logsDir (Some t) es = Returned (qualifying rt logsDir t es)" by simp
  show ?case
  proof (cases "is_log e")
    case False
    with ih show ?thesis
      by (simp add: scan_loop_Cons qualifying_def del: scan_loop.simps)
  next
    case True
    with Cons.prems obtain st where st: "stat rt (logsDir @ ''/'' @ entry_name e) = Returned st"
      by (cases "stat rt (logsDir @ ''/'' @ entry_name e)") auto
    with True ih show ?thesis
      by (simp add: scan_loop_Cons qualifying_def mtime_at_def num_gt_def num_lt_def
            del: scan_loop.simps)
  qed
qed

lemma scan_loop_Threw:
  "\<exists>e \<in> set es. is_log e \<and> stat rt (logsDir @ ''/'' @ entry_name e) = Threw \<Longrightarrow>
   scan_loop rt logsDir st es = Threw"
proof (induction es)
  case Nil
  then show ?case by simp
next
  case (Cons e es)
  show ?case
  proof (cases "is_log e \<and> stat rt (logsDir @ ''/'' @ entry_name e) = Threw")
    case True
    then show ?thesis by (simp add: scan_loop_Cons del: scan_loop.simps)
  next
    case False
    with Cons.prems have "\<exists>e \<in> set es. is_log e \<and> stat rt (logsDir @ ''/'' @ entry_name e) = Threw"
      by auto
    then have "scan_loop rt logsDir st es = Threw" by (rule Cons.IH)
    then show ?thesis by (simp add: scan_loop_Cons split: outcome.splits del: scan_loop.simps)
  qed
qed

lemma read_summaries_Returned:
  "\<forall>f \<in> set fs. readTextFile rt (logsDir @ ''/'' @ nf_name f) \<noteq> Threw \<Longrightarrow>
   read_summaries rt logsDir fs = Returned (map (summary_of rt logsDir) fs)"
proof (induction fs)
  case Nil
  then show ?case by simp
next
  case (Cons f fs)
  then obtain c where "readTextFile rt (logsDir @ ''/'' @ nf_name f) = Returned c"
    by (cases "readTextFile rt (logsDir @ ''/'' @ nf_name f)") auto
  with Cons show ?case by (simp add: summary_of_def content_at_def)
qed

lemma read_summaries_Threw:
  "\<exists>f \<in> set fs. readTextFile rt (logsDir @ ''/'' @ nf_name f) = Threw \<Longrightarrow>
   read_summaries rt logsDir fs = Threw"
proof (induction fs)
  case Nil
  then show ?case by simp
next
  case (Cons f fs)
  show ?case
  proof (cases "readTextFile rt (logsDir @ ''/'' @ nf_name f)")
    case Threw
    then show ?thesis by simp
  next
    case (Returned c)
    with Cons.prems have "\<exists>f \<in> set fs. readTextFile rt (logsDir @ ''/'' @ nf_name f) = Threw"
      by auto
    then have "read_summaries rt logsDir fs = Threw" by (rule Cons.IH)
    with Returned show ?thesis by simp
  qed
qed

lemma sort_newest_first_sorted:
  "sorted_wrt (\<lambda>a b. nf_mtime b \<le> nf_mtime a) (sort_newest_first fs)"
proof -
  have "sorted (map (\<lambda>f. - nf_mtime f) (sort_key (\<lambda>f. - nf_mtime f) fs))"
    by (rule sorted_sort_key)
  then show ?thesis by (simp add: sort_newest_first_def sorted_map)
qed

lemma sort_newest_first_mset: "mset (sort_newest_first fs) = mset fs"
  by (simp add: sort_newest_first_def)

lemma split_on_nonempty: "split_on d s \<noteq> []"
  by (induction s) (auto split: list.splits)

lemma split_on_pieces: "x \<in> set (split_on d s) \<Longrightarrow> d \<notin> set x"
  by (induction s arbitrary: x) (auto split: list.splits if_splits)

lemma join_split: "join_with d (split_on d s) = s"
proof (induction s)
  case Nil
  then show ?case by simp
next
  case (Cons c cs)
  obtain l ls where sp: "split_on d cs = l # ls"
    using split_on_nonempty [of d cs] by (cases "split_on d cs") auto
  with Cons show ?case by (cases ls) auto
qed

lemma split_join:
  "xs \<noteq> [] \<Longrightarrow> \<forall>x \<in> set xs. d \<notin> set x \<Longrightarrow> split_on d (join_with d xs) = xs"
proof (induction d xs rule: join_with.induct)
  case (1 d)
  then show ?case by simp
next
  case (2 d x)
  then show ?case by (simp add: split_on_no_sep)
next
  case (3 d x y ys)
  then show ?case by (simp add: split_on_append)
qed

lemma join_append:
  "xs \<noteq> [] \<Longrightarrow> ys \<noteq> [] \<Longrightarrow> join_with d (xs @ ys) = join_with d xs @ d # join_with d ys"
proof (induction d xs rule: join_with.induct)
  case (1 d)
  then show ?case by simp
next
  case (2 d x)
  then show ?case by (cases ys) auto
next
  case (3 d x y ys)
  then show ?case by simp
qed

lemma tail_lines_lines:
  "split_on (CHR 0x0A) (tail_lines c)
     = drop (length (split_on (CHR 0x0A) c) - 10) (split_on (CHR 0x0A) c)"
proof -
  let ?ls = "split_on (CHR 0x0A) c"
  have "length ?ls > 0" using split_on_nonempty [of "CHR 0x0A" c] by simp
  then have "length (drop (length ?ls - 10) ?ls) > 0" by simp
  then have ne: "drop (length ?ls - 10) ?ls \<noteq> []" by simp
  have "\<forall>x \<in> set (drop (length ?ls - 10) ?ls). CHR 0x0A \<notin> set x"
    using split_on_pieces in_set_dropD by fast
  with ne show ?thesis by (simp add: tail_lines_def Let_def split_join)
qed

lemma tail_lines_short: "length (split_on (CHR 0x0A) (tail_lines c)) \<le> 10"
  by (simp add: tail_lines_lines)

lemma tail_lines_suffix: "\<exists>pre. c = pre @ tail_lines c"
proof -
  let ?ls = "split_on (CHR 0x0A) c"
  let ?k = "length ?ls - 10"
  have c: "c = join_with (CHR 0x0A) (take ?k ?ls @ drop ?k ?ls)" by (simp add: join_split)
  have "length ?ls > 0" using split_on_nonempty [of "CHR 0x0A" c] by simp
  then have "length (drop ?k ?ls) > 0" by simp
  then have ne: "drop ?k ?ls \<noteq> []" by simp
  show ?thesis
  proof (cases "take ?k ?ls = []")
    case True
    then have "drop ?k ?ls = ?ls" by (metis append_Nil append_take_drop_id)
    then have "tail_lines c = c" by (simp add: tail_lines_def Let_def join_split)
    then show ?thesis by simp
  next
    case False
    from join_append [OF False ne, of "CHR 0x0A"] c
    have "c = (join_with (CHR 0x0A) (take ?k ?ls) @ [CHR 0x0A]) @ tail_lines c"
      by (simp add: tail_lines_def Let_def)
    then show ?thesis by blast
  qed
qed

text \<open>A qualifying file among the five newest that cannot be read makes the scan throw.\<close>

lemma scanNewLogs_Threw:
  assumes "readDir rt logsDir = Returned es"
    and "\<forall>e \<in> set es. is_log e \<longrightarrow> stat rt (logsDir @ ''/'' @ entry_name e) \<noteq> Threw"
    and "\<exists>f \<in> set (take 5 (sort_newest_first (qualifying rt logsDir t es))).
           readTextFile rt (logsDir @ ''/'' @ nf_name f) = Threw"
  shows "scanNewLogs rt logsDir (Some t) = Threw"
  using assms(1) scan_loop_Returned [OF assms(2), of t] read_summaries_Threw [OF assms(3)]
  by (simp add: scanNewLogs_def)

text \<open>
  C5. In a directory that can be read, whose log files can be examined and whose
  qualifying files can be read, \<^verbatim>\<open>new_count\<close> is the number of qualifying files, and
  the summaries are those of the first \<open>min 5 new_count\<close> files of an arrangement of
  all qualifying files from the newest to the oldest. The lines of a summary are the last
  ten lines of the content (all of them when there are fewer), and the summary is the end
  of the content. When the directory cannot be read, or a log file of it cannot be
  examined, the result is a count of \<open>0\<close> and no summary.
\<close>

theorem scanNewLogs_summary:
  "(readDir rt logsDir = Returned es
      \<and> (\<forall>e \<in> set es. is_log e \<longrightarrow> stat rt (logsDir @ ''/'' @ entry_name e) \<noteq> Threw)
      \<and> (\<forall>f \<in> set (qualifying rt logsDir t es).
            readTextFile rt (logsDir @ ''/'' @ nf_name f) \<noteq> Threw)
    \<longrightarrow> (\<exists>top rest.
           scanNewLogs rt logsDir (Some t)
             = Returned \<lparr>new_count = length (qualifying rt logsDir t es),
                         recent_summaries = map (summary_of rt logsDir) top\<rparr>
           \<and> mset (top @ rest) = mset (qualifying rt logsDir t es)
           \<and> sorted_wrt (\<lambda>a b. nf_mtime b \<le> nf_mtime a) (top @ rest)
           \<and> length top = min 5 (length (qualifying rt logsDir t es))))
   \<and> (readDir rt logsDir = Threw
        \<or> readDir rt logsDir = Returned es
           \<and> (\<exists>e \<in> set es. is_log e \<and> stat rt (logsDir @ ''/'' @ entry_name e) = Threw)
    \<longrightarrow> scanNewLogs rt logsDir st = Returned \<lparr>new_count = 0, recent_summaries = []\<rparr>)
   \<and> split_on (CHR 0x0A) (tail_lines c)
        = drop (length (split_on (CHR 0x0A) c) - 10) (split_on (CHR 0x0A) c)
   \<and> length (split_on (CHR 0x0A) (tail_lines c)) \<le> 10
   \<and> (\<exists>pre. c = pre @ tail_lines c)"
proof -
  have main: "\<exists>top rest.
           scanNewLogs rt logsDir (Some t)
             = Returned \<lparr>new_count = length (qualifying rt logsDir t es),
                         recent_summaries = map (summary_of rt logsDir) top\<rparr>
           \<and> mset (top @ rest) = mset (qualifying rt logsDir t es)
           \<and> sorted_wrt (\<lambda>a b. nf_mtime b \<le> nf_mtime a) (top @ rest)
           \<and> length top = min 5 (length (qualifying rt logsDir t es))"
    if rd: "readDir rt logsDir = Returned es"
      and st: "\<forall>e \<in> set es. is_log e \<longrightarrow> stat rt (logsDir @ ''/'' @ entry_name e) \<noteq> Threw"
      and rf: "\<forall>f \<in> set (qualifying rt logsDir t es).
            readTextFile rt (logsDir @ ''/'' @ nf_name f) \<noteq> Threw"
  proof -
    let ?q = "qualifying rt logsDir t es"
    let ?s = "sort_newest_first ?q"
    have sl: "scan_loop rt logsDir (Some t) es = Returned ?q"
      using st by (rule scan_loop_Returned)
    have "set (take 5 ?s) \<subseteq> set ?q"
      using set_take_subset [of 5 ?s] sort_newest_first_mset [of ?q] mset_eq_setD by blast
    with rf have "\<forall>f \<in> set (take 5 ?s). readTextFile rt (logsDir @ ''/'' @ nf_name f) \<noteq> Threw"
      by blast
    then have rs: "read_summaries rt logsDir (take 5 ?s)
                     = Returned (map (summary_of rt logsDir) (take 5 ?s))"
      by (rule read_summaries_Returned)
    have r: "scanNewLogs rt logsDir (Some t)
             = Returned \<lparr>new_count = length ?q,
                         recent_summaries = map (summary_of rt logsDir) (take 5 ?s)\<rparr>"
      by (simp add: scanNewLogs_def rd sl rs)
    have m: "mset (take 5 ?s @ drop 5 ?s) = mset ?q"
      by (simp add: sort_newest_first_mset)
    have o: "sorted_wrt (\<lambda>a b. nf_mtime b \<le> nf_mtime a) (take 5 ?s @ drop 5 ?s)"
      by (simp add: sort_newest_first_sorted)
    have l: "length (take 5 ?s) = min 5 (length ?q)"
      by (simp add: sort_newest_first_def min.commute)
    from r m o l show ?thesis by blast
  qed
  have fail: "scanNewLogs rt logsDir st = Returned \<lparr>new_count = 0, recent_summaries = []\<rparr>"
    if "readDir rt logsDir = Threw
        \<or> readDir rt logsDir = Returned es
           \<and> (\<exists>e \<in> set es. is_log e \<and> stat rt (logsDir @ ''/'' @ entry_name e) = Threw)"
  proof (cases "readDir rt logsDir")
    case Threw
    then show ?thesis by (simp add: scanNewLogs_def)
  next
    case (Returned es')
    with that have "es' = es"
      and "\<exists>e \<in> set es. is_log e \<and> stat rt (logsDir @ ''/'' @ entry_name e) = Threw"
      by auto
    then have "scan_loop rt logsDir st es' = Threw" using scan_loop_Threw by blast
    with Returned show ?thesis by (simp add: scanNewLogs_def)
  qed
  from main fail tail_lines_lines [of c] tail_lines_short [of c] tail_lines_suffix [of c]
  show ?thesis by blast
qed

text \<open>The theorem at the example directory and at a machine without one.\<close>

theorem scanNewLogs_summary_witness:
  "scanNewLogs logs_runtime ''/p/agent_logs'' (Some 100)
     = Returned
         \<lparr>new_count = 8,
          recent_summaries =
            [\<lparr>file' = ''agent-2.log'',
              last_lines = join_with (CHR 0x0A)
                [''l3'', ''l4'', ''l5'', ''l6'', ''l7'', ''l8'', ''l9'', ''l10'', ''l11'', ''l12'']\<rparr>,
             \<lparr>file' = ''agent-4.log'', last_lines = ''four''\<rparr>,
             \<lparr>file' = ''agent-6.log'', last_lines = ''six''\<rparr>,
             \<lparr>file' = ''agent-5.log'', last_lines = ''five''\<rparr>,
             \<lparr>file' = ''agent-7.log'', last_lines = ''seven''\<rparr>]\<rparr>
   \<and> length (qualifying logs_runtime ''/p/agent_logs'' 100
               (map (\<lambda>(n, m, c). \<lparr>entry_name = n, isFile = True\<rparr>) log_table)) = 8
   \<and> scanNewLogs no_process ''/p/agent_logs'' (Some 100)
       = Returned \<lparr>new_count = 0, recent_summaries = []\<rparr>"
proof -
  let ?es = "map (\<lambda>(n, m, c). \<lparr>entry_name = n, isFile = True\<rparr>) log_table"
  have rd: "readDir logs_runtime ''/p/agent_logs'' = Returned ?es"
    by (simp add: logs_runtime_def)
  have st: "\<forall>e \<in> set ?es. is_log e \<longrightarrow> stat logs_runtime (''/p/agent_logs'' @ ''/'' @ entry_name e) \<noteq> Threw"
    by code_simp
  have rf: "\<forall>f \<in> set (qualifying logs_runtime ''/p/agent_logs'' 100 ?es).
              readTextFile logs_runtime (''/p/agent_logs'' @ ''/'' @ nf_name f) \<noteq> Threw"
    by code_simp
  have ev: "scanNewLogs logs_runtime ''/p/agent_logs'' (Some 100)
     = Returned
         \<lparr>new_count = 8,
          recent_summaries =
            [\<lparr>file' = ''agent-2.log'',
              last_lines = join_with (CHR 0x0A)
                [''l3'', ''l4'', ''l5'', ''l6'', ''l7'', ''l8'', ''l9'', ''l10'', ''l11'', ''l12'']\<rparr>,
             \<lparr>file' = ''agent-4.log'', last_lines = ''four''\<rparr>,
             \<lparr>file' = ''agent-6.log'', last_lines = ''six''\<rparr>,
             \<lparr>file' = ''agent-5.log'', last_lines = ''five''\<rparr>,
             \<lparr>file' = ''agent-7.log'', last_lines = ''seven''\<rparr>]\<rparr>"
    by code_simp
  from scanNewLogs_summary [of logs_runtime "''/p/agent_logs''" ?es 100] rd st rf
  obtain top where "scanNewLogs logs_runtime ''/p/agent_logs'' (Some 100)
             = Returned \<lparr>new_count = length (qualifying logs_runtime ''/p/agent_logs'' 100 ?es),
                         recent_summaries = map (summary_of logs_runtime ''/p/agent_logs'') top\<rparr>"
    by blast
  with ev have n: "length (qualifying logs_runtime ''/p/agent_logs'' 100 ?es) = 8" by simp
  have nd: "scanNewLogs no_process ''/p/agent_logs'' (Some 100)
       = Returned \<lparr>new_count = 0, recent_summaries = []\<rparr>"
    using scanNewLogs_summary [of no_process "''/p/agent_logs''"]
    by (simp add: no_process_def)
  from ev n nd show ?thesis by blast
qed

end
